theory Spec2Isabelle
  imports Main "HOL-Library.Word"
begin

section \<open>Python values used by \<open>PVGeo/ubc/two_file_base.py\<close>\<close>

text \<open>
  Exceptions are values.  \<open>PVGeoError\<close> is the only exception class the module raises
  on purpose (\<open>_helpers.PVGeoError\<close>); the others are the interpreter's and numpy's own
  exceptions, which the module lets through.  \<open>IOError\<close> stands for the
  \<open>(IOError, OSError)\<close> pair the module catches around each file read.
\<close>

datatype error =
    PVGeoError string
  | IOError string
  | IndexError
  | ValueError
  | OverflowError
  | AttributeError
  | NameError string
  | NotImplementedError

text \<open>
  \<open>xs[i]\<close> on a Python list or a one-dimensional numpy array: an index below zero
  counts from the end, an index outside \<open>-n .. n-1\<close> raises \<open>IndexError\<close>.
\<close>

definition py_index :: "'a list \<Rightarrow> int \<Rightarrow> error + 'a" where
  "py_index xs i =
     (if 0 \<le> i \<and> i < int (length xs) then Inr (xs ! nat i)
      else if i < 0 \<and> - int (length xs) \<le> i then Inr (xs ! nat (int (length xs) + i))
      else Inl IndexError)"

text \<open>
  \<open>s.split(sep)\<close> with a one-character separator: the pieces between the
  separators, empty pieces kept, so the result is never empty.  \<open>cur\<close> is the piece
  being read.
\<close>

fun split_sep :: "char \<Rightarrow> string \<Rightarrow> string \<Rightarrow> string list" where
  "split_sep d cur [] = [cur]"
| "split_sep d cur (c # cs) =
     (if c = d then cur # split_sep d [] cs else split_sep d (cur @ [c]) cs)"

definition py_split_sep :: "char \<Rightarrow> string \<Rightarrow> string list" where
  "py_split_sep d s = split_sep d [] s"

text \<open>
  \<open>s.split()\<close> without a separator: the maximal runs of characters that are not
  white space (blank, tab, line feed, vertical tab, form feed, carriage return).
\<close>

definition is_space :: "char \<Rightarrow> bool" where
  "is_space c = (c \<in> set [CHR '' '', CHR 0x09, CHR 0x0A, CHR 0x0B, CHR 0x0C, CHR 0x0D])"

fun split_ws :: "string \<Rightarrow> string \<Rightarrow> string list" where
  "split_ws cur [] = (if cur = [] then [] else [cur])"
| "split_ws cur (c # cs) =
     (if is_space c then (if cur = [] then split_ws [] cs else cur # split_ws [] cs)
      else split_ws (cur @ [c]) cs)"

definition py_split :: "string \<Rightarrow> string list" where
  "py_split s = split_ws [] s"

text \<open>\<open>s.split('!')[0]\<close>: the text before the first comment mark.\<close>

definition before_comment :: "string \<Rightarrow> string" where
  "before_comment s = hd (py_split_sep CHR ''!'' s)"

text \<open>
  An integer literal as \<open>int\<close> and numpy's conversion to an integer type read it: an
  optional sign and one or more decimal digits.  (Digit separators and digits outside
  ASCII, which later Python versions also accept, are not literals here.)
\<close>

definition digit_of :: "char \<Rightarrow> nat option" where
  "digit_of c =
     (if 48 \<le> (of_char c :: nat) \<and> (of_char c :: nat) \<le> 57
      then Some (of_char c - 48) else None)"

fun digits_value :: "nat \<Rightarrow> string \<Rightarrow> nat option" where
  "digits_value acc [] = Some acc"
| "digits_value acc (c # cs) =
     (case digit_of c of
        None \<Rightarrow> None
      | Some d \<Rightarrow> digits_value (10 * acc + d) cs)"

definition int_literal :: "string \<Rightarrow> int option" where
  "int_literal t =
     (case t of
        [] \<Rightarrow> None
      | c # cs \<Rightarrow>
          if c = CHR ''-'' then
            (if cs = [] then None else map_option (\<lambda>n. - int n) (digits_value 0 cs))
          else if c = CHR ''+'' then
            (if cs = [] then None else map_option int (digits_value 0 cs))
          else map_option int (digits_value 0 t))"

text \<open>
  \<open>int(s)\<close> on a string: white space around the literal is allowed, anything else
  is a \<open>ValueError\<close>.  A string is a literal between white space exactly when
  \<open>s.split()\<close> has one piece and that piece is a literal.
\<close>

definition py_int :: "string \<Rightarrow> error + int" where
  "py_int s =
     (case py_split s of
        [t] \<Rightarrow> (case int_literal t of None \<Rightarrow> Inl ValueError | Some n \<Rightarrow> Inr n)
      | _ \<Rightarrow> Inl ValueError)"

section \<open>The numpy calls of the module\<close>

text \<open>
  The file system is a map from a path to the lines of the file; a path outside its
  domain cannot be opened.
\<close>

type_synonym files = "string \<Rightarrow> string list option"

text \<open>
  \<open>np.genfromtxt(FileName, dtype=str, delimiter='\n', comments='!')\<close> reads a file
  line by line.  Its line splitter cuts each line at the first \<open>!\<close>
  (\<open>line.split(comments)[0]\<close>), strips blanks, carriage returns and line feeds
  from both ends (\<open>line.strip(" \r\n")\<close>), drops the line when nothing is left, and
  keeps the rest as one string.  These are the retained lines.  A file that cannot be
  opened is an \<open>IOError\<close>, whose message is cut down to the path here.
\<close>

definition np_strip :: "string \<Rightarrow> string" where
  "np_strip s =
     rev (dropWhile (\<lambda>c. c \<in> set [CHR '' '', CHR 0x0D, CHR 0x0A])
       (rev (dropWhile (\<lambda>c. c \<in> set [CHR '' '', CHR 0x0D, CHR 0x0A]) s)))"

definition genfromtxt_rows :: "string list \<Rightarrow> string list" where
  "genfromtxt_rows raw =
     filter (\<lambda>l. l \<noteq> []) (map (\<lambda>l. np_strip (before_comment l)) raw)"

text \<open>
  The result is squeezed: one retained line gives a zero-dimensional array
  (\<open>Arr0\<close>), which cannot be indexed; any other number gives a one-dimensional array.
  A numpy string scalar is an \<open>Arr0\<close> as well: \<open>ravel\<close> turns both into an array
  of one element.
\<close>

datatype str_array = Arr0 string | Arr1 "string list"

definition np_squeeze :: "string list \<Rightarrow> str_array" where
  "np_squeeze rows = (case rows of [x] \<Rightarrow> Arr0 x | _ \<Rightarrow> Arr1 rows)"

definition genfromtxt_str :: "files \<Rightarrow> string \<Rightarrow> nat option \<Rightarrow> error + str_array" where
  "genfromtxt_str fs FileName max_rows =
     (case fs FileName of
        None \<Rightarrow> Inl (IOError FileName)
      | Some raw \<Rightarrow>
          Inr (np_squeeze (case max_rows of
                             None \<Rightarrow> genfromtxt_rows raw
                           | Some n \<Rightarrow> take n (genfromtxt_rows raw))))"

definition np_getitem :: "str_array \<Rightarrow> int \<Rightarrow> error + string" where
  "np_getitem a i = (case a of Arr0 x \<Rightarrow> Inl IndexError | Arr1 xs \<Rightarrow> py_index xs i)"

definition np_ravel :: "str_array \<Rightarrow> string list" where
  "np_ravel a = (case a of Arr0 x \<Rightarrow> [x] | Arr1 xs \<Rightarrow> xs)"

text \<open>
  \<open>try: ... except (IOError, OSError) as fe: raise _helpers.PVGeoError(str(fe))\<close>.
\<close>

definition except_io :: "error + 'a \<Rightarrow> error + 'a" where
  "except_io r = (case r of Inl (IOError msg) \<Rightarrow> Inl (PVGeoError msg) | _ \<Rightarrow> r)"

text \<open>
  \<open>np.array(tokens, dtype=int)\<close>: an array of 64-bit signed integers.  A token
  that is no literal is a \<open>ValueError\<close>, a literal outside the 64-bit range an
  \<open>OverflowError\<close>.  \<open>np.sum\<close> and \<open>+\<close> on such integers wrap around.
\<close>

type_synonym int64 = "64 word"

definition fits_int64 :: "int \<Rightarrow> bool" where
  "fits_int64 n = (- (2 ^ 63) \<le> n \<and> n < 2 ^ 63)"

fun np_array_int :: "string list \<Rightarrow> error + int64 list" where
  "np_array_int [] = Inr []"
| "np_array_int (t # ts) =
     (case int_literal t of
        None \<Rightarrow> Inl ValueError
      | Some n \<Rightarrow>
          if fits_int64 n then
            (case np_array_int ts of
               Inl e \<Rightarrow> Inl e
             | Inr ws \<Rightarrow> Inr (word_of_int n # ws))
          else Inl OverflowError)"

definition np_sum :: "int64 list \<Rightarrow> int64" where
  "np_sum ws = foldl (+) 0 ws"

section \<open>The mesh reader: \<open>ubcMeshReaderBase\<close>\<close>

text \<open>
  The fields of \<open>ubcMeshReaderBase.__init__\<close>, and the mesh file name, which the
  parent class \<open>base.TwoFileReaderBase\<close> keeps and \<open>GetMeshFileName()\<close> returns.
\<close>

record reader =
  meshFileName :: string
  reader_dataname :: string
  reader_useExtName :: bool
  sizeM :: "int64 list option"

definition ubcMeshReaderBase_init :: "string \<Rightarrow> reader" where
  "ubcMeshReaderBase_init mesh =
     \<lparr> meshFileName = mesh,
       reader_dataname = ''Data'',
       reader_useExtName = True,
       sizeM = None \<rparr>"

text \<open>
  \<open>self.__sizeM.shape[0]\<close>: \<open>None\<close> has no attribute \<open>shape\<close>, which is an
  \<open>AttributeError\<close>.
\<close>

definition Is3D :: "reader \<Rightarrow> error + bool" where
  "Is3D self =
     (case sizeM self of None \<Rightarrow> Inl AttributeError | Some sz \<Rightarrow> Inr (length sz \<ge> 3))"

definition Is2D :: "reader \<Rightarrow> error + bool" where
  "Is2D self =
     (case sizeM self of None \<Rightarrow> Inl AttributeError | Some sz \<Rightarrow> Inr (length sz = 1))"

text \<open>
  The loop of the local function \<open>_genTup(sft, n)\<close> of \<open>_ubcMesh2D_part\<close>, over
  the values of \<open>range(n)\<close> still to come, with the lists \<open>pts\<close> and \<open>disc\<close> built
  so far.  The test \<open>i is 0\<close> holds for the first value of \<open>range(n)\<close> and for no
  other.  \<open>ln[0]\<close>, \<open>ln[1]\<close> and \<open>ln[2]\<close> raise \<open>IndexError\<close> on a line with too
  few tokens; tokens beyond those are ignored.
\<close>

fun genTup_loop ::
  "str_array \<Rightarrow> int \<Rightarrow> nat list \<Rightarrow> string list \<times> string list \<Rightarrow>
   error + string list \<times> string list" where
  "genTup_loop fileLines sft [] (pts, disc) = Inr (pts, disc)"
| "genTup_loop fileLines sft (i # rest) (pts, disc) =
     (case np_getitem fileLines (int i + sft) of
        Inl e \<Rightarrow> Inl e
      | Inr line \<Rightarrow>
          (if i = 0 then
             (case py_split (before_comment line) of
                orig # a # b # others \<Rightarrow>
                  genTup_loop fileLines sft rest (pts @ [orig, a], disc @ [b])
              | _ \<Rightarrow> Inl IndexError)
           else
             (case py_split (before_comment line) of
                a # b # others \<Rightarrow> genTup_loop fileLines sft rest (pts @ [a], disc @ [b])
              | _ \<Rightarrow> Inl IndexError)))"

definition genTup :: "str_array \<Rightarrow> int \<Rightarrow> int \<Rightarrow> error + string list \<times> string list" where
  "genTup fileLines sft n = genTup_loop fileLines sft [0..<nat n] ([], [])"

text \<open>
  \<open>_ubcMesh2D_part(FileName)\<close> returns \<open>(xpts, xdisc, zpts, zdisc)\<close>, lists of
  tokens: it converts the two counts and nothing else.
\<close>

definition ubcMesh2D_part ::
  "files \<Rightarrow> string \<Rightarrow> error + string list \<times> string list \<times> string list \<times> string list" where
  "ubcMesh2D_part fs FileName =
     (case except_io (genfromtxt_str fs FileName None) of
        Inl e \<Rightarrow> Inl e
      | Inr fileLines \<Rightarrow>
     (case np_getitem fileLines 0 of
        Inl e \<Rightarrow> Inl e
      | Inr line0 \<Rightarrow>
     (case py_int (before_comment line0) of
        Inl e \<Rightarrow> Inl e
      | Inr nx \<Rightarrow>
     (case np_getitem fileLines (nx + 1) of
        Inl e \<Rightarrow> Inl e
      | Inr linez \<Rightarrow>
     (case py_int (before_comment linez) of
        Inl e \<Rightarrow> Inl e
      | Inr nz \<Rightarrow>
     (case genTup fileLines 1 nx of
        Inl e \<Rightarrow> Inl e
      | Inr (xpts, xdisc) \<Rightarrow>
     (case genTup fileLines (2 + nx) nz of
        Inl e \<Rightarrow> Inl e
      | Inr (zpts, zdisc) \<Rightarrow> Inr (xpts, xdisc, zpts, zdisc))))))))"

text \<open>
  \<open>v = np.array(np.__version__.split('.')[0:2], dtype=int)\<close> and the test
  \<open>v[0] >= 1 and v[1] >= 10\<close>, which decides whether \<open>genfromtxt\<close> is called with
  \<open>max_rows=1\<close>.  The version string of the installed numpy is a parameter.
\<close>

definition numpy_has_max_rows :: "string \<Rightarrow> error + bool" where
  "numpy_has_max_rows np_version =
     (case np_array_int (take 2 (py_split_sep CHR ''.'' np_version)) of
        Inl e \<Rightarrow> Inl e
      | Inr v \<Rightarrow>
          (case py_index v 0 of
             Inl e \<Rightarrow> Inl e
           | Inr major \<Rightarrow>
               if sint major \<ge> 1 then
                 (case py_index v 1 of
                    Inl e \<Rightarrow> Inl e
                  | Inr minor \<Rightarrow> Inr (sint minor \<ge> 10))
               else Inr False))"

text \<open>
  The \<open>try\<close> block of \<open>_ReadExtent\<close>: one row with \<open>max_rows=1\<close>, or the whole
  file and its element \<open>[0]\<close>, a string scalar.
\<close>

definition read_first_row :: "bool \<Rightarrow> files \<Rightarrow> string \<Rightarrow> error + str_array" where
  "read_first_row max_rows fs FileName =
     except_io
       (if max_rows then genfromtxt_str fs FileName (Some 1)
        else (case genfromtxt_str fs FileName None of
                Inl e \<Rightarrow> Inl e
              | Inr a \<Rightarrow> (case np_getitem a 0 of Inl e \<Rightarrow> Inl e | Inr x \<Rightarrow> Inr (Arr0 x))))"

text \<open>
  \<open>_ReadExtent\<close> returns the extent or raises, and leaves the header sizes in
  \<open>self.__sizeM\<close> once it has converted the first retained line, also when it raises
  after that.
\<close>

type_synonym extent = "int \<times> int \<times> int \<times> int \<times> int \<times> int"

definition ReadExtent :: "string \<Rightarrow> files \<Rightarrow> reader \<Rightarrow> (error + extent) \<times> reader" where
  "ReadExtent np_version fs self =
     (case numpy_has_max_rows np_version of
        Inl e \<Rightarrow> (Inl e, self)
      | Inr max_rows \<Rightarrow>
     (case read_first_row max_rows fs (meshFileName self) of
        Inl e \<Rightarrow> (Inl e, self)
      | Inr msh \<Rightarrow>
     (case py_index (np_ravel msh) 0 of
        Inl e \<Rightarrow> (Inl e, self)
      | Inr first \<Rightarrow>
     (case np_array_int (py_split first) of
        Inl e \<Rightarrow> (Inl e, self)
      | Inr sz \<Rightarrow>
          (let self' = self\<lparr>sizeM := Some sz\<rparr> in
           if length sz = 1 then
             (case ubcMesh2D_part fs (meshFileName self) of
                Inl e \<Rightarrow> (Inl e, self')
              | Inr (xpts, xdisc, zpts, zdisc) \<Rightarrow>
                  (case np_array_int xdisc of
                     Inl e \<Rightarrow> (Inl e, self')
                   | Inr xs \<Rightarrow>
                       (case np_array_int zdisc of
                          Inl e \<Rightarrow> (Inl e, self')
                        | Inr zs \<Rightarrow>
                            (Inr (0, sint (np_sum xs + 1), 0, 1, 0, sint (np_sum zs + 1)),
                             self'))))
           else if length sz \<ge> 3 then
             (Inr (0, sint (sz ! 0), 0, sint (sz ! 1), 0, sint (sz ! 2)), self')
           else (Inl (PVGeoError ''File format not recognized''), self'))))))"

subsection \<open>The model reader \<open>ubcModel3D\<close>\<close>

text \<open>
  The names bound at the top level of the module: its two dunder assignments, its
  imports (\<open>numpy as np\<close>, \<open>pandas as pd\<close>, \<open>vtk\<close>, \<open>_helpers\<close>, \<open>base\<close>) and its
  two classes.  Reading any other name that is not a builtin raises \<open>NameError\<close>.
\<close>

definition module_globals :: "string list" where
  "module_globals =
     [''__all__'', ''__displayname__'', ''np'', ''pd'', ''vtk'', ''_helpers'', ''base'',
      ''ubcMeshReaderBase'', ''ModelAppenderBase'']"

definition global_name :: "string \<Rightarrow> error + string" where
  "global_name n = (if n \<in> set module_globals then Inr n else Inl (NameError n))"

text \<open>\<open>os.path.basename\<close> of a path: the text after the last slash.\<close>

definition os_path_basename :: "string \<Rightarrow> string" where
  "os_path_basename p = last (py_split_sep CHR ''/'' p)"

text \<open>\<open>out[k] = v\<close> on a dictionary, kept as a list of pairs in insertion order.\<close>

fun dict_set :: "'k \<Rightarrow> 'v \<Rightarrow> ('k \<times> 'v) list \<Rightarrow> ('k \<times> 'v) list" where
  "dict_set k v [] = [(k, v)]"
| "dict_set k v ((k', v') # kvs) =
     (if k = k' then (k', v) # kvs else (k', v') # dict_set k v kvs)"

text \<open>
  The argument is a path or a list of paths; the result an array or a dictionary of
  arrays.  \<open>np.genfromtxt(FileName, dtype=np.float, comments='!')\<close> is the parameter
  \<open>genfromtxt_float\<close>, and \<open>'a\<close> the type of the array it returns.

  In the loop over a list, the statement
  \<open>out[os.path.basename(f)] = ubcMeshReaderBase.ubcModel3D(f)\<close> evaluates its right
  side first, then looks up \<open>os\<close>.
\<close>

datatype path_arg = Path string | Paths "string list"

datatype 'a model_result = ModelArray 'a | ModelDict "(string \<times> 'a) list"

fun ubcModel3D_loop ::
  "(string \<Rightarrow> error + 'a) \<Rightarrow> string list \<Rightarrow> (string \<times> 'a) list \<Rightarrow>
   error + (string \<times> 'a) list" where
  "ubcModel3D_loop genfromtxt_float [] out = Inr out"
| "ubcModel3D_loop genfromtxt_float (f # fs) out =
     (case except_io (genfromtxt_float f) of
        Inl e \<Rightarrow> Inl e
      | Inr data \<Rightarrow>
          (case global_name ''os'' of
             Inl e \<Rightarrow> Inl e
           | Inr os \<Rightarrow>
               ubcModel3D_loop genfromtxt_float fs (dict_set (os_path_basename f) data out)))"

definition ubcModel3D :: "(string \<Rightarrow> error + 'a) \<Rightarrow> path_arg \<Rightarrow> error + 'a model_result" where
  "ubcModel3D genfromtxt_float FileName =
     (case FileName of
        Paths fs \<Rightarrow>
          (case ubcModel3D_loop genfromtxt_float fs [] of
             Inl e \<Rightarrow> Inl e
           | Inr out \<Rightarrow> Inr (ModelDict out))
      | Path f \<Rightarrow>
          (case except_io (genfromtxt_float f) of
             Inl e \<Rightarrow> Inl e
           | Inr data \<Rightarrow> Inr (ModelArray data)))"

section \<open>The model appender: \<open>ModelAppenderBase\<close>\<close>

text \<open>
  The fields of \<open>ModelAppenderBase.__init__\<close> that the setters, getters and
  \<open>RequestData\<close> read or write.  \<open>'m\<close> is the type of a loaded model array: the
  base class only stores and counts them.  The time step fields (\<open>__dt\<close>,
  \<open>__timesteps\<close>, \<open>__inTimesteps\<close>) and \<open>_is3D\<close> are written only by
  \<open>RequestInformation\<close>, \<open>NeedToRead\<close> and \<open>GetTimestepValues\<close>, which are not
  part of this development.
\<close>

record 'm appender =
  modelFileNames :: "string list"
  dataname :: string
  useExtName :: bool
  models :: "'m list"
  needToRead :: bool

text \<open>
  \<open>__init__\<close>: \<open>kwargs.get('modelfiles', [])\<close> and
  \<open>kwargs.get('dataname', 'Appended Data')\<close>; an absent keyword is \<open>None\<close> here.
\<close>

definition ModelAppenderBase_init :: "string list option \<Rightarrow> string option \<Rightarrow> 'm appender" where
  "ModelAppenderBase_init modelfiles dataname_kw =
     \<lparr> modelFileNames = (case modelfiles of None \<Rightarrow> [] | Some fs \<Rightarrow> fs),
       dataname = (case dataname_kw of None \<Rightarrow> ''Appended Data'' | Some n \<Rightarrow> n),
       useExtName = True,
       models = [],
       needToRead = True \<rparr>"

text \<open>
  \<open>Modified(readAgain=True)\<close>: \<open>if readAgain: self.__needToRead = readAgain\<close>.
  The call of \<open>base.AlgorithmBase.Modified\<close> that follows only notifies the
  visualisation pipeline; it touches none of the fields above.
\<close>

definition Modified :: "bool \<Rightarrow> 'm appender \<Rightarrow> 'm appender" where
  "Modified readAgain s = (if readAgain then s\<lparr>needToRead := readAgain\<rparr> else s)"

definition HasModels :: "'m appender \<Rightarrow> bool" where
  "HasModels s = (length (modelFileNames s) > 0)"

definition ClearModels :: "'m appender \<Rightarrow> 'm appender" where
  "ClearModels s = Modified True (s\<lparr>modelFileNames := [], models := []\<rparr>)"

text \<open>
  The argument of \<open>AddModelFileName\<close>: \<open>None\<close>, a string, or a list whose elements
  are passed to the method again.
\<close>

datatype fname = PyNone | PyStr string | PyList "fname list"

text \<open>
  \<open>AddModelFileName\<close> returns \<open>None\<close> for \<open>None\<close> and \<open>1\<close> otherwise.  The list
  branch calls itself on every element and then \<open>self.Modified()\<close>, whatever the
  elements did; the string branch appends and calls \<open>self.Modified()\<close> only when the
  name is not in the list yet.
\<close>

fun AddModelFileName :: "fname \<Rightarrow> 'm appender \<Rightarrow> int option \<times> 'm appender" where
  "AddModelFileName PyNone s = (None, s)"
| "AddModelFileName (PyList fs) s =
     (Some 1, Modified True (fold (\<lambda>f t. snd (AddModelFileName f t)) fs s))"
| "AddModelFileName (PyStr f) s =
     (Some 1,
      if f \<notin> set (modelFileNames s)
      then Modified True (s\<lparr>modelFileNames := modelFileNames s @ [f]\<rparr>)
      else s)"

text \<open>
  \<open>GetModelFileNames(idx=None)\<close> returns the whole list when \<open>idx\<close> is \<open>None\<close> or
  there are no models, one file name otherwise: the result has two shapes.
\<close>

datatype names_result = NameList "string list" | NameStr string

definition GetModelFileNames :: "int option \<Rightarrow> 'm appender \<Rightarrow> error + names_result" where
  "GetModelFileNames idx s =
     (case idx of
        None \<Rightarrow> Inr (NameList (modelFileNames s))
      | Some i \<Rightarrow>
          if \<not> HasModels s then Inr (NameList (modelFileNames s))
          else (case py_index (modelFileNames s) i of
                  Inl e \<Rightarrow> Inl e
                | Inr f \<Rightarrow> Inr (NameStr f)))"

definition SetUseExtensionAsName :: "bool \<Rightarrow> 'm appender \<Rightarrow> 'm appender" where
  "SetUseExtensionAsName flag s =
     (if useExtName s \<noteq> flag then Modified False (s\<lparr>useExtName := flag\<rparr>) else s)"

definition SetDataName :: "string \<Rightarrow> 'm appender \<Rightarrow> 'm appender" where
  "SetDataName name s =
     (if name = [] then Modified False (s\<lparr>useExtName := True\<rparr>)
      else if dataname s \<noteq> name
      then Modified False (s\<lparr>dataname := name, useExtName := False\<rparr>)
      else s)"

text \<open>
  \<open>GetDataName\<close>: \<open>mname.split('.')[-1]\<close> needs a string; a list has no
  \<open>split\<close> attribute, which is an \<open>AttributeError\<close>.
\<close>

definition GetDataName :: "'m appender \<Rightarrow> error + string" where
  "GetDataName s =
     (if useExtName s then
        (case GetModelFileNames (Some 0) s of
           Inl e \<Rightarrow> Inl e
         | Inr (NameList l) \<Rightarrow> Inl AttributeError
         | Inr (NameStr mname) \<Rightarrow> Inr (last (py_split_sep CHR ''.'' mname)))
      else Inr (dataname s))"

text \<open>
  The two hooks a subclass overrides.  In the base class \<open>_ReadUpFront\<close> raises the
  misspelt \<open>NotImpelementedError\<close>, a name Python does not know, and
  \<open>_PlaceOnMesh\<close> raises \<open>NotImplementedError\<close>.  A hook may change the appender
  before it raises, so it returns the state beside its outcome.
\<close>

type_synonym 'm read_hook = "'m appender \<Rightarrow> error option \<times> 'm appender"
type_synonym ('m, 'g) place_hook = "'m appender \<Rightarrow> 'g \<Rightarrow> nat \<Rightarrow> error option \<times> 'g \<times> 'm appender"

definition base_ReadUpFront :: "'m read_hook" where
  "base_ReadUpFront s = (Some (NameError ''NotImpelementedError''), s)"

definition base_PlaceOnMesh :: "('m, 'g) place_hook" where
  "base_PlaceOnMesh s output idx = (Some NotImplementedError, output, s)"

text \<open>
  \<open>RequestData\<close>.  \<open>'g\<close> is the grid type; \<open>output.DeepCopy(pdi)\<close> makes the output
  equal to the input grid \<open>pdi\<close>.  The requested time index \<open>i\<close> comes from
  \<open>_helpers.getRequestedTime\<close>, which is not in this module: it is an index into the
  time steps, a natural number.  The result is the return value \<open>1\<close> or the exception,
  the output grid and the appender.
\<close>

definition RequestData ::
  "'m read_hook \<Rightarrow> ('m, 'g) place_hook \<Rightarrow> 'g \<Rightarrow> nat \<Rightarrow> 'm appender \<Rightarrow> (error + int) \<times> 'g \<times> 'm appender" where
  "RequestData ReadUpFront PlaceOnMesh pdi i s =
     (let output = pdi;
          (r, s1) = (if needToRead s then ReadUpFront s else (None, s))
      in case r of
           Some e \<Rightarrow> (Inl e, output, s1)
         | None \<Rightarrow>
             if length (models s1) > i then
               (case PlaceOnMesh s1 output i of
                  (Some e, output', s2) \<Rightarrow> (Inl e, output', s2)
                | (None, output', s2) \<Rightarrow> (Inr 1, output', s2))
             else (Inr 1, output, s1))"

section \<open>The 2D mesh grammar of the specification\<close>

text \<open>
  The specification's own reading of a 2D mesh file, for comparison with
  \<open>_ubcMesh2D_part\<close>.  It works on the retained lines.  Line 0 holds the count
  \<open>nx\<close>; lines \<open>1..nx\<close> hold the X runs; line \<open>nx+1\<close> holds the count \<open>nz\<close>;
  lines \<open>nx+2..nx+1+nz\<close> hold the Z runs.  The first line of an axis has three
  tokens, origin, width and repeat count; every further line has exactly two, width
  and repeat count.  A repeat count is an integer, at least 1.  Origin and widths are
  kept as tokens.
\<close>

record axis_disc =
  origin :: string
  runs :: "(string \<times> int) list"

definition repeat_counts :: "axis_disc \<Rightarrow> int list" where
  "repeat_counts A = map snd (runs A)"

definition spec_count :: "string \<Rightarrow> nat option" where
  "spec_count l =
     (case py_split l of
        [t] \<Rightarrow> (case int_literal t of
                  None \<Rightarrow> None
                | Some n \<Rightarrow> if 0 \<le> n then Some (nat n) else None)
      | _ \<Rightarrow> None)"

definition spec_run :: "string \<Rightarrow> string \<Rightarrow> (string \<times> int) option" where
  "spec_run w r =
     (case int_literal r of
        None \<Rightarrow> None
      | Some n \<Rightarrow> if 1 \<le> n then Some (w, n) else None)"

definition spec_run_first :: "string \<Rightarrow> (string \<times> string \<times> int) option" where
  "spec_run_first l =
     (case py_split l of
        [orig, w, r] \<Rightarrow> map_option (Pair orig) (spec_run w r)
      | _ \<Rightarrow> None)"

definition spec_run_next :: "string \<Rightarrow> (string \<times> int) option" where
  "spec_run_next l =
     (case py_split l of
        [w, r] \<Rightarrow> spec_run w r
      | _ \<Rightarrow> None)"

definition spec_axis :: "string list \<Rightarrow> axis_disc option" where
  "spec_axis ls =
     (case ls of
        [] \<Rightarrow> None
      | l # rest \<Rightarrow>
          (case spec_run_first l of
             None \<Rightarrow> None
           | Some (orig, run0) \<Rightarrow>
               (case those (map spec_run_next rest) of
                  None \<Rightarrow> None
                | Some rs \<Rightarrow> Some \<lparr> origin = orig, runs = run0 # rs \<rparr>)))"

definition spec_mesh2D :: "string list \<Rightarrow> (axis_disc \<times> axis_disc) option" where
  "spec_mesh2D rows =
     (case rows of
        [] \<Rightarrow> None
      | c # others \<Rightarrow>
     (case spec_count c of
        None \<Rightarrow> None
      | Some nx \<Rightarrow>
          if length rows < nx + 2 then None
          else
     (case spec_count (rows ! (nx + 1)) of
        None \<Rightarrow> None
      | Some nz \<Rightarrow>
          if length rows < nx + nz + 2 then None
          else
     (case spec_axis (take nx (drop 1 rows)) of
        None \<Rightarrow> None
      | Some X \<Rightarrow>
     (case spec_axis (take nz (drop (nx + 2) rows)) of
        None \<Rightarrow> None
      | Some Z \<Rightarrow> Some (X, Z))))))"

section \<open>Example inputs\<close>

text \<open>
  A 2D mesh with two X runs and two Z runs, a comment line, a trailing comment and a
  blank line; its two axes are equal.
\<close>

definition mesh2D_A :: "string list" where
  "mesh2D_A =
     [''! a 2D mesh'', ''2'', ''0 10 2'', ''  20 3   ! second run'', '''',
      ''2'', ''0 10 2'', ''20 3'']"

definition XA :: axis_disc where
  "XA = \<lparr> origin = ''0'', runs = [(''10'', 2), (''20'', 3)] \<rparr>"

text \<open>
  Mesh files: a 2D mesh, a 3D header alone, a header of two tokens of which one is no
  integer, and a header of two integers.
\<close>

definition mesh_files :: files where
  "mesh_files name =
     (if name = ''a.msh'' then Some mesh2D_A
      else if name = ''b.msh'' then Some [''4 5 6'']
      else if name = ''c.msh'' then Some [''4 x'']
      else if name = ''d.msh'' then Some [''4 5'', ''0 0'']
      else None)"

text \<open>
  Headers alone: three integers in a file of one retained line and in a file of two,
  and two integers in a file of one retained line.
\<close>

definition header_files :: files where
  "header_files name =
     (if name = ''h1.msh'' then Some [''4 5 6'']
      else if name = ''h2.msh'' then Some [''4 5 6'', ''0 0 0'']
      else if name = ''t1.msh'' then Some [''4 5'']
      else None)"

text \<open>
  Broken 2D meshes: the second X run and all that follows is missing; a width is no
  number; a repeat count is no number.
\<close>

definition bad_mesh_files :: files where
  "bad_mesh_files name =
     (if name = ''e.msh'' then Some [''2'', ''0 10 2'']
      else if name = ''f.msh'' then Some [''1'', ''0 abc 2'', ''1'', ''0 10 2'']
      else if name = ''g.msh'' then Some [''1'', ''0 10 x'', ''1'', ''0 10 2'']
      else None)"

text \<open>Two model files, with integers for their values.\<close>

definition model_files :: "string \<Rightarrow> error + int list" where
  "model_files name =
     (if name = ''/data/a.mod'' then Inr [1, 2, 3, 4]
      else if name = ''/data/b.mod'' then Inr [5, 6, 7, 8]
      else Inl (IOError name))"

text \<open>
  An appender that has read its two model files: the state \<open>CLEAN\<close> of the
  specification.
\<close>

definition clean_appender :: "nat appender" where
  "clean_appender =
     \<lparr> modelFileNames = [''a.mod'', ''b.mod''],
       dataname = ''Appended Data'',
       useExtName = True,
       models = [1, 2],
       needToRead = False \<rparr>"

text \<open>
  A subclass of the appender: reading loads three models, placing appends the
  model's value to the grid's cell data (a list of numbers).
\<close>

definition read3 :: "nat read_hook" where
  "read3 s = (None, s\<lparr>models := [10, 20, 30], needToRead := False\<rparr>)"

definition place_cell :: "(nat, nat list) place_hook" where
  "place_cell s g i = (None, g @ [models s ! i], s)"

section \<open>Strings, rows and integers\<close>

lemma hd_split_sep: "hd (split_sep d cur s) = cur @ takeWhile (\<lambda>c. c \<noteq> d) s"
  by (induction s arbitrary: cur) auto

lemma before_comment_takeWhile: "before_comment s = takeWhile (\<lambda>c. c \<noteq> CHR ''!'') s"
  by (simp add: before_comment_def py_split_sep_def hd_split_sep)

lemma set_np_strip: "set (np_strip s) \<subseteq> set s"
proof -
  have "set (np_strip s) \<subseteq> set (dropWhile (\<lambda>c. c \<in> set [CHR '' '', CHR 0x0D, CHR 0x0A]) s)"
    unfolding np_strip_def using set_dropWhileD by fastforce
  also have "\<dots> \<subseteq> set s"
    using set_dropWhileD by fastforce
  finally show ?thesis .
qed

lemma before_comment_no_bang: "CHR ''!'' \<notin> set s \<Longrightarrow> before_comment s = s"
  by (auto simp: before_comment_takeWhile)

lemma bang_not_in_before_comment: "CHR ''!'' \<notin> set (before_comment s)"
  unfolding before_comment_takeWhile using set_takeWhileD by fastforce

lemma rows_no_comment:
  assumes "l \<in> set (genfromtxt_rows raw)"
  shows "before_comment l = l"
proof -
  from assms obtain r where "l = np_strip (before_comment r)"
    by (auto simp: genfromtxt_rows_def)
  then have "CHR ''!'' \<notin> set l"
    using set_np_strip bang_not_in_before_comment by blast
  then show ?thesis by (rule before_comment_no_bang)
qed

lemma np_array_int_ok:
  "map int_literal ts = map Some ns \<Longrightarrow> \<forall>n \<in> set ns. fits_int64 n \<Longrightarrow>
   np_array_int ts = Inr (map word_of_int ns)"
proof (induction ts arbitrary: ns)
  case Nil
  then show ?case by simp
next
  case (Cons t ts)
  then obtain n ns' where ns: "ns = n # ns'" by (cases ns) auto
  with Cons show ?case by simp
qed

lemma foldl_plus_word: "foldl (+) a ws = a + sum_list (ws :: int64 list)"
  by (induction ws arbitrary: a) (simp_all add: add.assoc)

lemma sum_list_word_of_int: "sum_list (map word_of_int ns :: int64 list) = word_of_int (sum_list ns)"
  by (induction ns) simp_all

lemma np_sum_word_of_int: "np_sum (map word_of_int ns) = word_of_int (sum_list ns)"
  by (simp add: np_sum_def foldl_plus_word sum_list_word_of_int)

lemma sint_int64: "fits_int64 n \<Longrightarrow> sint (word_of_int n :: int64) = n"
  by (simp add: fits_int64_def signed_of_int signed_take_bit_int_eq_self)

lemma sint_np_sum_plus1:
  "fits_int64 (sum_list ns + 1) \<Longrightarrow> sint (np_sum (map word_of_int ns) + 1) = sum_list ns + 1"
proof -
  assume f: "fits_int64 (sum_list ns + 1)"
  have "np_sum (map word_of_int ns) + 1 = (word_of_int (sum_list ns + 1) :: int64)"
    by (simp add: np_sum_word_of_int)
  then show ?thesis using sint_int64 [OF f] by simp
qed

lemma pos_le_sum_list:
  fixes rs :: "int list"
  assumes "\<forall>r \<in> set rs. 1 \<le> r"
  shows "int (length rs) \<le> sum_list rs \<and> (\<forall>r \<in> set rs. r \<le> sum_list rs)"
  using assms
proof (induction rs)
  case Nil
  then show ?case by simp
next
  case (Cons a rs)
  then have ih: "int (length rs) \<le> sum_list rs" "\<forall>r \<in> set rs. r \<le> sum_list rs" and a: "1 \<le> a"
    by auto
  have "0 \<le> sum_list rs" using ih(1) by linarith
  then show ?case using ih a by fastforce
qed

section \<open>The 2D decoder on a file of the grammar\<close>

lemma spec_run_next_tokens:
  assumes "spec_run_next l = Some r"
  shows "\<exists>w t. py_split l = [w, t] \<and> int_literal t = Some (snd r) \<and> 1 \<le> snd r"
  using assms
  by (auto simp: spec_run_next_def spec_run_def split: list.splits option.splits if_splits)

lemma spec_run_first_tokens:
  assumes "spec_run_first l = Some (orig, r)"
  shows "\<exists>w t. py_split l = [orig, w, t] \<and> int_literal t = Some (snd r) \<and> 1 \<le> snd r"
  using assms
  by (auto simp: spec_run_first_def spec_run_def split: list.splits option.splits if_splits)

lemma genTup_loop_next:
  assumes "those (map spec_run_next ls) = Some rs"
      and "\<And>j. j < length ls \<Longrightarrow> np_getitem A (int (k + j) + sft) = Inr (ls ! j)"
      and "0 < k"
      and "\<And>l. l \<in> set ls \<Longrightarrow> before_comment l = l"
  shows "\<exists>pts' disc'. genTup_loop A sft [k..<k + length ls] (pts, disc) = Inr (pts', disc') \<and>
           map int_literal disc' = map int_literal disc @ map (\<lambda>r. Some (snd r)) rs \<and>
           (\<forall>r \<in> set rs. 1 \<le> snd r) \<and> length rs = length ls"
  using assms
proof (induction ls arbitrary: k pts disc rs)
  case Nil
  then show ?case by simp
next
  case (Cons l ls)
  from Cons.prems(1) obtain r rs' where r: "spec_run_next l = Some r"
    and rs': "those (map spec_run_next ls) = Some rs'" and rs: "rs = r # rs'"
    by (auto split: option.splits)
  from spec_run_next_tokens [OF r] obtain w t where
    toks: "py_split l = [w, t]" and lit: "int_literal t = Some (snd r)" and pos: "1 \<le> snd r"
    by blast
  have line: "np_getitem A (int k + sft) = Inr l"
    using Cons.prems(2) [of 0] by simp
  have bc: "before_comment l = l" using Cons.prems(4) by simp
  have idx: "[k..<k + length (l # ls)] = k # [Suc k..<Suc k + length ls]"
    by (simp add: upt_conv_Cons del: upt_Suc)
  have step: "genTup_loop A sft [k..<k + length (l # ls)] (pts, disc) =
              genTup_loop A sft [Suc k..<Suc k + length ls] (pts @ [w], disc @ [t])"
    unfolding idx using line bc toks Cons.prems(3) by simp
  have nxt: "\<And>j. j < length ls \<Longrightarrow> np_getitem A (int (Suc k + j) + sft) = Inr (ls ! j)"
    using Cons.prems(2) [of "Suc _"] by simp
  from Cons.IH [OF rs' nxt, of "pts @ [w]" "disc @ [t]"] Cons.prems(4)
  obtain pts' disc' where
    "genTup_loop A sft [Suc k..<Suc k + length ls] (pts @ [w], disc @ [t]) = Inr (pts', disc')"
    "map int_literal disc' = map int_literal (disc @ [t]) @ map (\<lambda>r. Some (snd r)) rs'"
    "\<forall>r \<in> set rs'. 1 \<le> snd r" "length rs' = length ls"
    by auto
  then show ?case using step rs lit pos by simp
qed

lemma genTup_spec_axis:
  assumes "spec_axis ls = Some X"
      and "\<And>j. j < length ls \<Longrightarrow> np_getitem A (int j + sft) = Inr (ls ! j)"
      and "\<And>l. l \<in> set ls \<Longrightarrow> before_comment l = l"
  shows "\<exists>pts disc. genTup A sft (int (length ls)) = Inr (pts, disc) \<and>
           map int_literal disc = map Some (repeat_counts X) \<and>
           (\<forall>r \<in> set (repeat_counts X). 1 \<le> r) \<and> length (repeat_counts X) = length ls"
proof -
  from assms(1) obtain l rest orig run0 rs where ls: "ls = l # rest"
    and first: "spec_run_first l = Some (orig, run0)"
    and nexts: "those (map spec_run_next rest) = Some rs"
    and X: "X = \<lparr> origin = orig, runs = run0 # rs \<rparr>"
    by (auto simp: spec_axis_def split: list.splits option.splits)
  from spec_run_first_tokens [OF first] obtain w t where
    toks: "py_split l = [orig, w, t]" and lit: "int_literal t = Some (snd run0)" and pos: "1 \<le> snd run0"
    by blast
  have line: "np_getitem A (int 0 + sft) = Inr l"
    using assms(2) [of 0] ls by simp
  have bc: "before_comment l = l" using assms(3) ls by simp
  have idx: "[0..<nat (int (length ls))] = 0 # [1..<1 + length rest]"
    unfolding nat_int ls by (simp add: upt_conv_Cons del: upt_Suc)
  have step: "genTup A sft (int (length ls)) =
              genTup_loop A sft [1..<1 + length rest] ([orig, w], [t])"
    unfolding genTup_def idx using line bc toks by simp
  have nxt: "\<And>j. j < length rest \<Longrightarrow> np_getitem A (int (1 + j) + sft) = Inr (rest ! j)"
    using assms(2) [of "Suc _"] ls by simp
  have bcs: "\<And>l. l \<in> set rest \<Longrightarrow> before_comment l = l"
    using assms(3) ls by simp
  from genTup_loop_next [OF nexts nxt _ bcs, of "[orig, w]" "[t]"]
  obtain pts' disc' where
    "genTup_loop A sft [1..<1 + length rest] ([orig, w], [t]) = Inr (pts', disc')"
    "map int_literal disc' = map int_literal [t] @ map (\<lambda>r. Some (snd r)) rs"
    "\<forall>r \<in> set rs. 1 \<le> snd r" "length rs = length rest"
    by auto
  then show ?thesis using step X lit pos ls by (simp add: repeat_counts_def)
qed

lemma np_getitem_Arr1:
  "i < length rows \<Longrightarrow> np_getitem (Arr1 rows) (int i) = Inr (rows ! i)"
  by (simp add: np_getitem_def py_index_def)

lemma np_squeeze_Arr1: "2 \<le> length rows \<Longrightarrow> np_squeeze rows = Arr1 rows"
  by (cases rows; cases "tl rows") (auto simp: np_squeeze_def)

lemma spec_count_tokens:
  assumes "spec_count l = Some n"
  shows "\<exists>t. py_split l = [t] \<and> int_literal t = Some (int n)"
  using assms by (auto simp: spec_count_def split: list.splits option.splits if_splits)

lemma spec_count_py_int: "spec_count l = Some n \<Longrightarrow> py_int l = Inr (int n)"
  using spec_count_tokens [of l n] by (auto simp: py_int_def)

lemma spec_mesh2D_SomeD:
  assumes "spec_mesh2D rows = Some (X, Z)"
  shows "\<exists>nx nz. spec_count (rows ! 0) = Some nx \<and> spec_count (rows ! (nx + 1)) = Some nz \<and>
           nx + nz + 2 \<le> length rows \<and>
           spec_axis (take nx (drop 1 rows)) = Some X \<and>
           spec_axis (take nz (drop (nx + 2) rows)) = Some Z"
  using assms
  by (auto simp: spec_mesh2D_def split: list.splits option.splits if_splits)

lemma ubcMesh2D_part_valid:
  assumes rd: "fs FileName = Some raw"
      and valid: "spec_mesh2D (genfromtxt_rows raw) = Some (X, Z)"
  shows "\<exists>xpts xdisc zpts zdisc.
           ubcMesh2D_part fs FileName = Inr (xpts, xdisc, zpts, zdisc) \<and>
           map int_literal xdisc = map Some (repeat_counts X) \<and>
           map int_literal zdisc = map Some (repeat_counts Z)"
proof -
  define rows where "rows = genfromtxt_rows raw"
  from spec_mesh2D_SomeD [OF valid] obtain nx nz where
    cx: "spec_count (rows ! 0) = Some nx" and cz: "spec_count (rows ! (nx + 1)) = Some nz" and
    len: "nx + nz + 2 \<le> length rows" and
    ax: "spec_axis (take nx (drop 1 rows)) = Some X" and
    az: "spec_axis (take nz (drop (nx + 2) rows)) = Some Z"
    unfolding rows_def by blast
  have nc: "\<And>l. l \<in> set rows \<Longrightarrow> before_comment l = l"
    unfolding rows_def by (rule rows_no_comment)
  have arr: "except_io (genfromtxt_str fs FileName None) = Inr (Arr1 rows)"
    using rd len by (simp add: genfromtxt_str_def except_io_def np_squeeze_Arr1 rows_def)
  have ne: "0 < length rows" using len by (cases rows) auto
  have l0: "np_getitem (Arr1 rows) 0 = Inr (rows ! 0)"
    using np_getitem_Arr1 [OF ne] by simp
  have nci: "\<And>i. i < length rows \<Longrightarrow> before_comment (rows ! i) = rows ! i"
    using nc nth_mem by blast
  have i0: "py_int (before_comment (rows ! 0)) = Inr (int nx)"
    using nci [OF ne] spec_count_py_int [OF cx] by simp
  have lz: "np_getitem (Arr1 rows) (int nx + 1) = Inr (rows ! Suc nx)"
    using np_getitem_Arr1 [of "nx + 1" rows] len by (simp add: add.commute)
  have iz: "py_int (before_comment (rows ! Suc nx)) = Inr (int nz)"
    using nci [of "nx + 1"] len spec_count_py_int [OF cz] by simp
  have lenx: "length (take nx (drop 1 rows)) = nx" using len by simp
  have lenz: "length (take nz (drop (nx + 2) rows)) = nz" using len by simp
  have gx: "\<And>j. j < length (take nx (drop 1 rows)) \<Longrightarrow>
              np_getitem (Arr1 rows) (int j + 1) = Inr (take nx (drop 1 rows) ! j)"
  proof -
    fix j assume "j < length (take nx (drop 1 rows))"
    then have j: "j < nx" using lenx by simp
    then have "np_getitem (Arr1 rows) (int (j + 1)) = Inr (rows ! (j + 1))"
      using len by (intro np_getitem_Arr1) simp
    then show "np_getitem (Arr1 rows) (int j + 1) = Inr (take nx (drop 1 rows) ! j)"
      using j len by (simp add: add.commute)
  qed
  have gz: "\<And>j. j < length (take nz (drop (nx + 2) rows)) \<Longrightarrow>
              np_getitem (Arr1 rows) (int j + (2 + int nx)) = Inr (take nz (drop (nx + 2) rows) ! j)"
  proof -
    fix j assume "j < length (take nz (drop (nx + 2) rows))"
    then have j: "j < nz" using lenz by simp
    then have "np_getitem (Arr1 rows) (int (nx + 2 + j)) = Inr (rows ! (nx + 2 + j))"
      using len by (intro np_getitem_Arr1) simp
    moreover have "int (nx + 2 + j) = int j + (2 + int nx)" by simp
    moreover have "take nz (drop (nx + 2) rows) ! j = rows ! (nx + 2 + j)"
      using j len by simp
    ultimately show "np_getitem (Arr1 rows) (int j + (2 + int nx)) = Inr (take nz (drop (nx + 2) rows) ! j)"
      by metis
  qed
  have ncx: "\<And>l. l \<in> set (take nx (drop 1 rows)) \<Longrightarrow> before_comment l = l"
    using nc by (meson in_set_dropD in_set_takeD)
  have ncz: "\<And>l. l \<in> set (take nz (drop (nx + 2) rows)) \<Longrightarrow> before_comment l = l"
    using nc by (meson in_set_dropD in_set_takeD)
  from genTup_spec_axis [OF ax gx ncx] obtain xpts xdisc where
    tx: "genTup (Arr1 rows) 1 (int nx) = Inr (xpts, xdisc)" and
    dx: "map int_literal xdisc = map Some (repeat_counts X)"
    unfolding lenx by blast
  from genTup_spec_axis [OF az gz ncz] obtain zpts zdisc where
    tz: "genTup (Arr1 rows) (2 + int nx) (int nz) = Inr (zpts, zdisc)" and
    dz: "map int_literal zdisc = map Some (repeat_counts Z)"
    unfolding lenz by blast
  have "ubcMesh2D_part fs FileName = Inr (xpts, xdisc, zpts, zdisc)"
    unfolding ubcMesh2D_part_def by (simp add: arr l0 i0 lz iz tx tz)
  with dx dz show ?thesis by blast
qed

lemma those_spec_run_next:
  "those (map spec_run_next ls) = Some rs \<Longrightarrow> (\<forall>r \<in> set rs. 1 \<le> snd r) \<and> length rs = length ls"
proof (induction ls arbitrary: rs)
  case Nil
  then show ?case by simp
next
  case (Cons l ls)
  from Cons.prems obtain r rs' where r: "spec_run_next l = Some r"
    and rs': "those (map spec_run_next ls) = Some rs'" and rs: "rs = r # rs'"
    by (auto split: option.splits)
  from spec_run_next_tokens [OF r] Cons.IH [OF rs'] rs show ?case by auto
qed

lemma spec_axis_repeats:
  assumes "spec_axis ls = Some X"
  shows "(\<forall>r \<in> set (repeat_counts X). 1 \<le> r) \<and> length (repeat_counts X) = length ls"
proof -
  from assms obtain l rest orig run0 rs where ls: "ls = l # rest"
    and first: "spec_run_first l = Some (orig, run0)"
    and nexts: "those (map spec_run_next rest) = Some rs"
    and X: "X = \<lparr> origin = orig, runs = run0 # rs \<rparr>"
    by (auto simp: spec_axis_def split: list.splits option.splits)
  from spec_run_first_tokens [OF first] those_spec_run_next [OF nexts] ls X
  show ?thesis by (auto simp: repeat_counts_def)
qed

lemma read_first_row_valid:
  assumes "fs FileName = Some raw" and "2 \<le> length (genfromtxt_rows raw)"
  shows "read_first_row b fs FileName = Inr (Arr0 (genfromtxt_rows raw ! 0))"
proof (cases b)
  case True
  obtain x rest where "genfromtxt_rows raw = x # rest"
    using assms(2) by (cases "genfromtxt_rows raw") auto
  then show ?thesis using True assms(1)
    by (simp add: read_first_row_def genfromtxt_str_def np_squeeze_def except_io_def)
next
  case False
  have ne: "0 < length (genfromtxt_rows raw)" using assms(2) by (cases "genfromtxt_rows raw") auto
  show ?thesis using False assms np_getitem_Arr1 [OF ne]
    by (simp add: read_first_row_def genfromtxt_str_def np_squeeze_Arr1 except_io_def)
qed

text \<open>
  Claim C1.  Let the mesh file be readable and follow the 2D grammar of the
  specification, with axes \<open>X\<close> and \<open>Z\<close>, and let both sums of repeat counts plus 1
  be below \<open>2^63\<close> (numpy adds 64-bit integers).  Then \<open>_ReadExtent\<close> returns
  \<open>(0, nx, 0, 1, 0, nz)\<close>, where \<open>nx\<close> is the sum of the X repeat counts plus 1 and
  \<open>nz\<close> the sum of the Z repeat counts plus 1, whichever branch the numpy version
  selects.
\<close>

theorem ReadExtent_mesh2D:
  assumes rd: "fs (meshFileName self) = Some raw"
      and ver: "numpy_has_max_rows np_version = Inr b"
      and valid: "spec_mesh2D (genfromtxt_rows raw) = Some (X, Z)"
      and fx: "sum_list (repeat_counts X) + 1 < 2 ^ 63"
      and fz: "sum_list (repeat_counts Z) + 1 < 2 ^ 63"
  shows "fst (ReadExtent np_version fs self) =
           Inr (0, sum_list (repeat_counts X) + 1, 0, 1, 0, sum_list (repeat_counts Z) + 1)"
proof -
  define rows where "rows = genfromtxt_rows raw"
  from spec_mesh2D_SomeD [OF valid] obtain nx nz where
    cx: "spec_count (rows ! 0) = Some nx" and
    len: "nx + nz + 2 \<le> length rows" and
    ax: "spec_axis (take nx (drop 1 rows)) = Some X" and
    az: "spec_axis (take nz (drop (nx + 2) rows)) = Some Z"
    unfolding rows_def by blast
  from spec_axis_repeats [OF ax] len have
    px: "\<forall>r \<in> set (repeat_counts X). 1 \<le> r" and lx: "length (repeat_counts X) = nx"
    by auto
  from spec_axis_repeats [OF az] have pz: "\<forall>r \<in> set (repeat_counts Z). 1 \<le> r"
    by auto
  from pos_le_sum_list [OF px] fx lx have
    fnx: "fits_int64 (int nx)" and frx: "\<forall>r \<in> set (repeat_counts X). fits_int64 r" and
    fsx: "fits_int64 (sum_list (repeat_counts X) + 1)"
    using px by (fastforce simp: fits_int64_def)+
  from pos_le_sum_list [OF pz] fz have
    frz: "\<forall>r \<in> set (repeat_counts Z). fits_int64 r" and
    fsz: "fits_int64 (sum_list (repeat_counts Z) + 1)"
    using pz by (fastforce simp: fits_int64_def)+
  have first: "read_first_row b fs (meshFileName self) = Inr (Arr0 (rows ! 0))"
    unfolding rows_def using rd len by (intro read_first_row_valid) (simp_all add: rows_def)
  from spec_count_tokens [OF cx] obtain t where
    t: "py_split (rows ! 0) = [t]" "int_literal t = Some (int nx)" by blast
  have sz: "np_array_int (py_split (rows ! 0)) = Inr [word_of_int (int nx)]"
    using t fnx by simp
  from ubcMesh2D_part_valid [of fs "meshFileName self" raw X Z, OF rd valid] obtain xpts xdisc zpts zdisc where
    part: "ubcMesh2D_part fs (meshFileName self) = Inr (xpts, xdisc, zpts, zdisc)" and
    dx: "map int_literal xdisc = map Some (repeat_counts X)" and
    dz: "map int_literal zdisc = map Some (repeat_counts Z)"
    by blast
  have ax: "np_array_int xdisc = Inr (map word_of_int (repeat_counts X))"
    using np_array_int_ok [OF dx frx] .
  have az: "np_array_int zdisc = Inr (map word_of_int (repeat_counts Z))"
    using np_array_int_ok [OF dz frz] .
  show ?thesis
    unfolding ReadExtent_def
    by (simp add: ver first np_ravel_def py_index_def sz part ax az
        sint_np_sum_plus1 [OF fsx] sint_np_sum_plus1 [OF fsz])
qed

theorem ReadExtent_mesh2D_witness:
  "mesh_files (meshFileName (ubcMeshReaderBase_init ''a.msh'')) = Some mesh2D_A \<and>
   numpy_has_max_rows ''1.14.5'' = Inr True \<and>
   spec_mesh2D (genfromtxt_rows mesh2D_A) = Some (XA, XA) \<and>
   fst (ReadExtent ''1.14.5'' mesh_files (ubcMeshReaderBase_init ''a.msh'')) = Inr (0, 6, 0, 1, 0, 6)"
proof -
  have h1: "mesh_files (meshFileName (ubcMeshReaderBase_init ''a.msh'')) = Some mesh2D_A"
    by (simp add: mesh_files_def ubcMeshReaderBase_init_def)
  have h2: "numpy_has_max_rows ''1.14.5'' = Inr True"
    by code_simp
  have h3: "spec_mesh2D (genfromtxt_rows mesh2D_A) = Some (XA, XA)"
    by code_simp
  have h4: "sum_list (repeat_counts XA) + 1 < 2 ^ 63"
    by (simp add: repeat_counts_def XA_def)
  have s: "sum_list (repeat_counts XA) + 1 = 6"
    by (simp add: repeat_counts_def XA_def)
  show ?thesis
    using ReadExtent_mesh2D [where fs = mesh_files and self = "ubcMeshReaderBase_init ''a.msh''",
        OF h1 h2 h3 h4 h4] h1 h2 h3
    by (simp add: s)
qed

section \<open>The header line\<close>

lemma read_first_row_header:
  assumes "fs FileName = Some raw" and "genfromtxt_rows raw = header # others"
      and "b \<or> others \<noteq> []"
  shows "read_first_row b fs FileName = Inr (Arr0 header)"
proof (cases b)
  case True
  then show ?thesis using assms(1,2)
    by (simp add: read_first_row_def genfromtxt_str_def np_squeeze_def except_io_def)
next
  case False
  with assms(3) obtain y ys where "others = y # ys" by (cases others) auto
  then show ?thesis using False assms(1,2)
    by (simp add: read_first_row_def genfromtxt_str_def np_squeeze_def except_io_def
        np_getitem_def py_index_def)
qed

text \<open>
  The 3D path where the header line is reached.  Let the first retained line of a
  readable mesh file have three or more tokens, all integers of 64 bits, the first
  three being \<open>ne\<close>, \<open>nn\<close> and \<open>nz\<close>, and let the version test select
  \<open>max_rows=1\<close> (\<open>b\<close> is true) or the file have a second retained line.  Then
  \<open>_ReadExtent\<close> returns \<open>(0, ne, 0, nn, 0, nz)\<close>, and \<open>Is3D\<close> holds afterwards:
  the other retained lines \<open>others\<close> and the lines dropped as comments do not occur
  in the result.
\<close>

lemma ReadExtent_mesh3D:
  assumes rd: "fs (meshFileName self) = Some raw"
      and ver: "numpy_has_max_rows np_version = Inr b"
      and rows: "genfromtxt_rows raw = header # others"
      and one: "b \<or> others \<noteq> []"
      and toks: "py_split header = t1 # t2 # t3 # ts"
      and ints: "map int_literal (t1 # t2 # t3 # ts) = map Some (ne # nn # nz # ns)"
      and fits: "\<forall>n \<in> set (ne # nn # nz # ns). fits_int64 n"
  shows "fst (ReadExtent np_version fs self) = Inr (0, ne, 0, nn, 0, nz) \<and>
         Is3D (snd (ReadExtent np_version fs self)) = Inr True"
proof -
  have first: "read_first_row b fs (meshFileName self) = Inr (Arr0 header)"
    using read_first_row_header [where fs = fs and FileName = "meshFileName self", OF rd rows one] .
  have sz: "np_array_int (py_split header) = Inr (map word_of_int (ne # nn # nz # ns))"
    unfolding toks using np_array_int_ok [OF ints fits] .
  have s: "sint (word_of_int ne :: int64) = ne" "sint (word_of_int nn :: int64) = nn"
    "sint (word_of_int nz :: int64) = nz"
    using fits by (simp_all add: sint_int64)
  show ?thesis
    unfolding ReadExtent_def
    by (simp add: ver first np_ravel_def py_index_def sz s Is3D_def)
qed

lemma ReadExtent_mesh3D_example:
  "fst (ReadExtent ''1.14.5'' mesh_files (ubcMeshReaderBase_init ''b.msh'')) = Inr (0, 4, 0, 5, 0, 6) \<and>
   Is3D (snd (ReadExtent ''1.14.5'' mesh_files (ubcMeshReaderBase_init ''b.msh''))) = Inr True"
proof -
  have h1: "mesh_files (meshFileName (ubcMeshReaderBase_init ''b.msh'')) = Some [''4 5 6'']"
    by (simp add: mesh_files_def ubcMeshReaderBase_init_def)
  have h2: "numpy_has_max_rows ''1.14.5'' = Inr True"
    by code_simp
  have h3: "genfromtxt_rows [''4 5 6''] = ''4 5 6'' # []"
    by code_simp
  have h4: "True \<or> ([] :: string list) \<noteq> []" by simp
  have h5: "py_split ''4 5 6'' = ''4'' # ''5'' # ''6'' # []"
    by code_simp
  have h6: "map int_literal (''4'' # ''5'' # ''6'' # []) = map Some (4 # 5 # 6 # [])"
    by code_simp
  have h7: "\<forall>n \<in> set (4 # 5 # 6 # []). fits_int64 n"
    by (simp add: fits_int64_def)
  show ?thesis
    using ReadExtent_mesh3D [where fs = mesh_files and self = "ubcMeshReaderBase_init ''b.msh''",
        OF h1 h2 h3 h4 h5 h6 h7]
    by simp
qed

text \<open>
  Claim C2.  The extent of a 3D mesh should be the first three integers of the first
  retained line, whatever else the file holds.  Where the version test fails (numpy
  1.9.2: minor version below 10) the code reads the whole file and takes element
  \<open>[0]\<close> of the squeezed result.  A file whose only retained line is \<open>4 5 6\<close>
  gives a zero-dimensional array there, and \<open>_ReadExtent\<close> raises \<open>IndexError\<close>;
  the same header followed by one more line gives \<open>(0, 4, 0, 5, 0, 6)\<close>, and so does
  the header alone on the \<open>max_rows\<close> branch (numpy 1.14.5).
\<close>

theorem ReadExtent_header_only_fallback:
  "numpy_has_max_rows ''1.9.2'' = Inr False \<and>
   fst (ReadExtent ''1.9.2'' header_files (ubcMeshReaderBase_init ''h1.msh'')) = Inl IndexError \<and>
   fst (ReadExtent ''1.9.2'' header_files (ubcMeshReaderBase_init ''h2.msh'')) = Inr (0, 4, 0, 5, 0, 6) \<and>
   fst (ReadExtent ''1.14.5'' header_files (ubcMeshReaderBase_init ''h1.msh'')) = Inr (0, 4, 0, 5, 0, 6)"
  by code_simp

lemma np_array_int_error: "np_array_int ts = Inl e \<Longrightarrow> e = ValueError \<or> e = OverflowError"
  by (induction ts) (auto split: option.splits if_splits sum.splits)

lemma np_array_int_length: "np_array_int ts = Inr ws \<Longrightarrow> length ws = length ts"
  by (induction ts arbitrary: ws) (auto split: option.splits if_splits sum.splits)

lemma read_first_row_single_fallback:
  assumes "fs FileName = Some raw" and "genfromtxt_rows raw = [header]"
  shows "read_first_row False fs FileName = Inl IndexError"
  using assms
  by (simp add: read_first_row_def genfromtxt_str_def np_squeeze_def np_getitem_def except_io_def)

lemma ReadExtent_single_fallback:
  assumes "fs (meshFileName self) = Some raw" and "genfromtxt_rows raw = [header]"
      and "numpy_has_max_rows np_version = Inr False"
  shows "ReadExtent np_version fs self = (Inl IndexError, self)"
  using read_first_row_single_fallback [where fs = fs, OF assms(1,2)] assms(3)
  by (simp add: ReadExtent_def)

text \<open>
  Claim C5, as the code has it.  If the first retained line of a readable mesh file
  has exactly two tokens, \<open>_ReadExtent\<close> returns no extent.  Where it reaches the
  header line (the version test selects \<open>max_rows=1\<close>, or the file has a second
  retained line) it first converts the two tokens: when one is no integer of 64 bits,
  the conversion's \<open>ValueError\<close> or \<open>OverflowError\<close> is what it raises; when both
  are, it raises \<open>PVGeoError('File format not recognized')\<close>.
\<close>

theorem ReadExtent_two_tokens:
  assumes rd: "fs (meshFileName self) = Some raw"
      and rows: "genfromtxt_rows raw = header # others"
      and toks: "py_split header = [t1, t2]"
  shows "(\<forall>ext. fst (ReadExtent np_version fs self) \<noteq> Inr ext) \<and>
         (\<forall>b. numpy_has_max_rows np_version = Inr b \<and> (b \<or> others \<noteq> []) \<longrightarrow>
            fst (ReadExtent np_version fs self) =
              (case np_array_int [t1, t2] of
                 Inl e \<Rightarrow> Inl e
               | Inr sz \<Rightarrow> Inl (PVGeoError ''File format not recognized'')) \<and>
            fst (ReadExtent np_version fs self) \<in>
              {Inl (PVGeoError ''File format not recognized''), Inl ValueError, Inl OverflowError})"
proof -
  have reached: "fst (ReadExtent np_version fs self) =
           (case np_array_int [t1, t2] of
              Inl e \<Rightarrow> Inl e
            | Inr sz \<Rightarrow> Inl (PVGeoError ''File format not recognized'')) \<and>
         fst (ReadExtent np_version fs self) \<in>
           {Inl (PVGeoError ''File format not recognized''), Inl ValueError, Inl OverflowError}"
    if ver: "numpy_has_max_rows np_version = Inr b" and one: "b \<or> others \<noteq> []" for b
  proof -
    have first: "read_first_row b fs (meshFileName self) = Inr (Arr0 header)"
      using read_first_row_header [where fs = fs and FileName = "meshFileName self", OF rd rows one] .
    show ?thesis
    proof (cases "np_array_int [t1, t2]")
      case (Inl e)
      then have "fst (ReadExtent np_version fs self) = Inl e"
        unfolding ReadExtent_def by (simp add: ver first np_ravel_def py_index_def toks)
      with Inl np_array_int_error [OF Inl] show ?thesis by auto
    next
      case (Inr sz)
      then have "length sz = 2" using np_array_int_length [OF Inr] by simp
      with Inr have "fst (ReadExtent np_version fs self) = Inl (PVGeoError ''File format not recognized'')"
        unfolding ReadExtent_def by (simp add: ver first np_ravel_def py_index_def toks)
      with Inr show ?thesis by simp
    qed
  qed
  have never: "fst (ReadExtent np_version fs self) \<noteq> Inr ext" for ext
  proof (cases "numpy_has_max_rows np_version")
    case (Inl e)
    then show ?thesis by (simp add: ReadExtent_def)
  next
    case (Inr b)
    show ?thesis
    proof (cases "b \<or> others \<noteq> []")
      case True
      from reached [OF Inr True] show ?thesis by auto
    next
      case False
      then have "numpy_has_max_rows np_version = Inr False" "genfromtxt_rows raw = [header]"
        using Inr rows by auto
      from ReadExtent_single_fallback [where fs = fs and self = self, OF rd this(2) this(1)] show ?thesis by simp
    qed
  qed
  from reached never show ?thesis by blast
qed

theorem ReadExtent_two_tokens_witness:
  "fst (ReadExtent ''1.9.2'' mesh_files (ubcMeshReaderBase_init ''d.msh'')) =
     Inl (PVGeoError ''File format not recognized'') \<and>
   (\<forall>ext. fst (ReadExtent ''1.9.2'' header_files (ubcMeshReaderBase_init ''t1.msh'')) \<noteq> Inr ext)"
proof -
  have h1: "mesh_files (meshFileName (ubcMeshReaderBase_init ''d.msh'')) = Some [''4 5'', ''0 0'']"
    by (simp add: mesh_files_def ubcMeshReaderBase_init_def)
  have h2: "numpy_has_max_rows ''1.9.2'' = Inr False"
    by code_simp
  have h3: "genfromtxt_rows [''4 5'', ''0 0''] = ''4 5'' # [''0 0'']"
    by code_simp
  have h5: "py_split ''4 5'' = [''4'', ''5'']"
    by code_simp
  have h6: "np_array_int [''4'', ''5''] = Inr [4, 5]"
    by code_simp
  have a: "fst (ReadExtent ''1.9.2'' mesh_files (ubcMeshReaderBase_init ''d.msh'')) =
     Inl (PVGeoError ''File format not recognized'')"
    using ReadExtent_two_tokens [where fs = mesh_files and self = "ubcMeshReaderBase_init ''d.msh''"
        and np_version = "''1.9.2''", OF h1 h3 h5, THEN conjunct2, rule_format, of False, THEN conjunct1] h2
    unfolding h6 by simp
  have k1: "header_files (meshFileName (ubcMeshReaderBase_init ''t1.msh'')) = Some [''4 5'']"
    by (simp add: header_files_def ubcMeshReaderBase_init_def)
  have k3: "genfromtxt_rows [''4 5''] = ''4 5'' # []"
    by code_simp
  have b: "\<forall>ext. fst (ReadExtent ''1.9.2'' header_files (ubcMeshReaderBase_init ''t1.msh'')) \<noteq> Inr ext"
    using ReadExtent_two_tokens [where fs = header_files and self = "ubcMeshReaderBase_init ''t1.msh''"
        and np_version = "''1.9.2''", OF k1 k3 h5, THEN conjunct1] .
  from a b show ?thesis by simp
qed

text \<open>
  Claim C5, as the specification has it, fails on the header \<open>4 x\<close>: it has two
  tokens, and what \<open>_ReadExtent\<close> raises is the \<open>ValueError\<close> of the integer
  conversion, not the module's error for an unrecognised header.
\<close>

theorem ReadExtent_two_tokens_not_integers:
  "py_split (hd (genfromtxt_rows (the (mesh_files ''c.msh'')))) = [''4'', ''x''] \<and>
   fst (ReadExtent ''1.14.5'' mesh_files (ubcMeshReaderBase_init ''c.msh'')) = Inl ValueError"
  by code_simp

text \<open>
  Claim C9, as the code has it.  \<open>Is3D()\<close> and \<open>Is2D()\<close> raise \<open>AttributeError\<close>
  on a reader as \<open>__init__\<close> leaves it, and on any reader whose \<open>__sizeM\<close> is
  \<open>None\<close>.  A \<open>_ReadExtent\<close> that raises before it has converted the first retained
  line (in the version test, in reading the file, on a file without a retained line,
  or in the conversion itself) leaves the reader as it was.  Once \<open>_ReadExtent\<close> has
  converted the first retained line, the reader holds the header sizes, whether
  \<open>_ReadExtent\<close> then returns an extent or raises, and both queries return a boolean:
  \<open>Is2D\<close> is true for one size, \<open>Is3D\<close> for three or more.  When an extent is
  returned, one of the two is true.
\<close>

theorem Is3D_Is2D_cached_header:
  "Is3D (ubcMeshReaderBase_init mesh) = Inl AttributeError \<and>
   Is2D (ubcMeshReaderBase_init mesh) = Inl AttributeError \<and>
   (sizeM self = None \<longrightarrow> Is3D self = Inl AttributeError \<and> Is2D self = Inl AttributeError) \<and>
   (\<forall>e. numpy_has_max_rows np_version = Inl e \<or>
        (\<exists>b. numpy_has_max_rows np_version = Inr b \<and>
           (read_first_row b fs (meshFileName self) = Inl e \<or>
            (\<exists>msh. read_first_row b fs (meshFileName self) = Inr msh \<and>
               (py_index (np_ravel msh) 0 = Inl e \<or>
                (\<exists>first. py_index (np_ravel msh) 0 = Inr first \<and>
                   np_array_int (py_split first) = Inl e))))) \<longrightarrow>
        ReadExtent np_version fs self = (Inl e, self)) \<and>
   (\<forall>b msh first sz.
        numpy_has_max_rows np_version = Inr b \<and>
        read_first_row b fs (meshFileName self) = Inr msh \<and>
        py_index (np_ravel msh) 0 = Inr first \<and>
        np_array_int (py_split first) = Inr sz \<longrightarrow>
        snd (ReadExtent np_version fs self) = self\<lparr>sizeM := Some sz\<rparr> \<and>
        Is3D (snd (ReadExtent np_version fs self)) = Inr (3 \<le> length sz) \<and>
        Is2D (snd (ReadExtent np_version fs self)) = Inr (length sz = 1)) \<and>
   (\<forall>ext. fst (ReadExtent np_version fs self) = Inr ext \<longrightarrow>
        (\<exists>sz. sizeM (snd (ReadExtent np_version fs self)) = Some sz \<and>
              (length sz = 1 \<or> 3 \<le> length sz)))"
  by (auto simp: Is3D_def Is2D_def ubcMeshReaderBase_init_def ReadExtent_def Let_def
      split: sum.splits prod.splits if_splits)

theorem Is3D_Is2D_cached_header_witness:
  "Is3D (ubcMeshReaderBase_init ''b.msh'') = Inl AttributeError \<and>
   Is2D (ubcMeshReaderBase_init ''b.msh'') = Inl AttributeError \<and>
   snd (ReadExtent ''1.14.5'' mesh_files (ubcMeshReaderBase_init ''b.msh'')) =
     (ubcMeshReaderBase_init ''b.msh'')\<lparr>sizeM := Some [4, 5, 6]\<rparr> \<and>
   Is3D (snd (ReadExtent ''1.14.5'' mesh_files (ubcMeshReaderBase_init ''b.msh''))) = Inr True \<and>
   Is2D (snd (ReadExtent ''1.14.5'' mesh_files (ubcMeshReaderBase_init ''b.msh''))) = Inr False"
proof -
  have h: "numpy_has_max_rows ''1.14.5'' = Inr True \<and>
           read_first_row True mesh_files (meshFileName (ubcMeshReaderBase_init ''b.msh'')) = Inr (Arr0 ''4 5 6'') \<and>
           py_index (np_ravel (Arr0 ''4 5 6'')) 0 = Inr ''4 5 6'' \<and>
           np_array_int (py_split ''4 5 6'') = Inr [4, 5, 6]"
    by code_simp
  note all = Is3D_Is2D_cached_header [of "''b.msh''" "ubcMeshReaderBase_init ''b.msh''" "''1.14.5''" mesh_files]
  have a: "Is3D (ubcMeshReaderBase_init ''b.msh'') = Inl AttributeError \<and>
           Is2D (ubcMeshReaderBase_init ''b.msh'') = Inl AttributeError"
    using all by blast
  have b: "snd (ReadExtent ''1.14.5'' mesh_files (ubcMeshReaderBase_init ''b.msh'')) =
             (ubcMeshReaderBase_init ''b.msh'')\<lparr>sizeM := Some [4, 5, 6]\<rparr> \<and>
           Is3D (snd (ReadExtent ''1.14.5'' mesh_files (ubcMeshReaderBase_init ''b.msh''))) = Inr (3 \<le> length [4, 5, 6 :: int64]) \<and>
           Is2D (snd (ReadExtent ''1.14.5'' mesh_files (ubcMeshReaderBase_init ''b.msh''))) = Inr (length [4, 5, 6 :: int64] = 1)"
    using all [THEN conjunct2, THEN conjunct2, THEN conjunct2, THEN conjunct2, THEN conjunct1,
        rule_format, of True "Arr0 ''4 5 6''" "''4 5 6''" "[4, 5, 6]"] h
    by blast
  have c: "(3 \<le> length [4, 5, 6 :: int64]) = True" "(length [4, 5, 6 :: int64] = 1) = False"
    by simp_all
  from a b show ?thesis unfolding c by blast
qed

text \<open>
  Claim C9, as the specification has it, fails after an extent computation that did not
  succeed.  On \<open>d.msh\<close>, whose header has two integers, \<open>_ReadExtent\<close> raises
  \<open>PVGeoError\<close>, and afterwards both queries return \<open>False\<close>.  On \<open>e.msh\<close>, a 2D
  mesh with missing lines, it raises \<open>IndexError\<close>, and afterwards \<open>Is2D()\<close> returns
  \<open>True\<close>.
\<close>

theorem Is3D_Is2D_after_failed_ReadExtent:
  "fst (ReadExtent ''1.14.5'' mesh_files (ubcMeshReaderBase_init ''d.msh'')) =
     Inl (PVGeoError ''File format not recognized'') \<and>
   Is3D (snd (ReadExtent ''1.14.5'' mesh_files (ubcMeshReaderBase_init ''d.msh''))) = Inr False \<and>
   Is2D (snd (ReadExtent ''1.14.5'' mesh_files (ubcMeshReaderBase_init ''d.msh''))) = Inr False \<and>
   fst (ReadExtent ''1.14.5'' bad_mesh_files (ubcMeshReaderBase_init ''e.msh'')) = Inl IndexError \<and>
   Is3D (snd (ReadExtent ''1.14.5'' bad_mesh_files (ubcMeshReaderBase_init ''e.msh''))) = Inr False \<and>
   Is2D (snd (ReadExtent ''1.14.5'' bad_mesh_files (ubcMeshReaderBase_init ''e.msh''))) = Inr True"
  by code_simp

section \<open>What the 2D decoder raises\<close>

lemma py_index_error: "py_index xs i = Inl e \<Longrightarrow> e = IndexError"
  by (auto simp: py_index_def split: if_splits)

lemma np_getitem_error: "np_getitem A i = Inl e \<Longrightarrow> e = IndexError"
  by (auto simp: np_getitem_def dest: py_index_error split: str_array.splits)

lemma py_int_error: "py_int s = Inl e \<Longrightarrow> e = ValueError"
  by (auto simp: py_int_def split: list.splits option.splits)

lemma np_getitem_beyond: "int (length rows) \<le> i \<Longrightarrow> np_getitem (Arr1 rows) i = Inl IndexError"
  by (simp add: np_getitem_def py_index_def)

lemma genTup_loop_error: "genTup_loop A sft idx acc = Inl e \<Longrightarrow> e = IndexError"
proof (induction A sft idx acc rule: genTup_loop.induct)
  case (1 fileLines sft pts disc)
  then show ?case by simp
next
  case (2 fileLines sft i rest pts disc)
  show ?case
  proof (cases "np_getitem fileLines (int i + sft)")
    case (Inl e')
    with "2.prems" np_getitem_error [OF Inl] show ?thesis by simp
  next
    case (Inr line)
    show ?thesis
    proof (cases "i = 0")
      case True
      with Inr "2.prems" "2.IH"(1) [OF Inr True] show ?thesis
        by (auto split: list.splits)
    next
      case False
      with Inr "2.prems" "2.IH"(2) [OF Inr False] show ?thesis
        by (auto split: list.splits)
    qed
  qed
qed

lemma genTup_loop_reads_all:
  "genTup_loop A sft idx acc = Inr r \<Longrightarrow> i \<in> set idx \<Longrightarrow> \<exists>l. np_getitem A (int i + sft) = Inr l"
proof (induction A sft idx acc rule: genTup_loop.induct)
  case (1 fileLines sft pts disc)
  then show ?case by simp
next
  case (2 fileLines sft j rest pts disc)
  from "2.prems"(1) obtain line where line: "np_getitem fileLines (int j + sft) = Inr line"
    by (auto split: sum.splits)
  show ?case
  proof (cases "i = j")
    case True
    with line show ?thesis by blast
  next
    case False
    with "2.prems"(2) have mem: "i \<in> set rest" by simp
    show ?thesis
    proof (cases "j = 0")
      case True
      with line "2.prems"(1) "2.IH"(1) [OF line True] mem show ?thesis
        by (auto split: list.splits)
    next
      case False
      with line "2.prems"(1) "2.IH"(2) [OF line False] mem show ?thesis
        by (auto split: list.splits)
    qed
  qed
qed

lemma genTup_error: "genTup A sft n = Inl e \<Longrightarrow> e = IndexError"
  unfolding genTup_def by (rule genTup_loop_error)

lemma genTup_missing_line:
  assumes "0 < n" and "int (length rows) \<le> n - 1 + sft"
  shows "genTup (Arr1 rows) sft n = Inl IndexError"
proof (cases "genTup (Arr1 rows) sft n")
  case (Inl e)
  with genTup_error [OF Inl] show ?thesis by simp
next
  case (Inr r)
  have "nat n - 1 \<in> set [0..<nat n]" using assms(1) by simp
  from genTup_loop_reads_all [OF Inr [unfolded genTup_def] this]
  obtain l where "np_getitem (Arr1 rows) (int (nat n - 1) + sft) = Inr l" by blast
  moreover have "int (nat n - 1) + sft = n - 1 + sft" using assms(1) by simp
  ultimately show ?thesis using np_getitem_beyond [OF assms(2)] by simp
qed

lemma ubcMesh2D_part_error:
  assumes "fs FileName = Some raw" and "ubcMesh2D_part fs FileName = Inl e"
  shows "e = IndexError \<or> e = ValueError"
  using assms
  by (auto simp: ubcMesh2D_part_def genfromtxt_str_def except_io_def
      dest: np_getitem_error py_int_error genTup_error split: sum.splits prod.splits)

lemma rows_Arr1: "genfromtxt_rows raw = l0 # l1 # others \<Longrightarrow> fs FileName = Some raw \<Longrightarrow>
  except_io (genfromtxt_str fs FileName None) = Inr (Arr1 (l0 # l1 # others))"
  by (simp add: genfromtxt_str_def except_io_def np_squeeze_def)

lemma ubcMesh2D_part_short:
  assumes rd: "fs FileName = Some raw" and "length (genfromtxt_rows raw) < 2"
  shows "ubcMesh2D_part fs FileName = Inl IndexError"
proof -
  from assms(2) consider "genfromtxt_rows raw = []" | x where "genfromtxt_rows raw = [x]"
    by (cases "genfromtxt_rows raw"; cases "tl (genfromtxt_rows raw)") auto
  then show ?thesis
    by cases (simp_all add: ubcMesh2D_part_def genfromtxt_str_def except_io_def np_squeeze_def rd
        np_getitem_def py_index_def)
qed

lemma ubcMesh2D_part_missing_count:
  assumes rd: "fs FileName = Some raw" and rows: "genfromtxt_rows raw = line0 # others"
      and nx: "py_int line0 = Inr nx" "0 \<le> nx" and short: "int (length (line0 # others)) < nx + 2"
  shows "ubcMesh2D_part fs FileName = Inl IndexError"
proof (cases others)
  case Nil
  then show ?thesis using ubcMesh2D_part_short [where fs = fs, OF rd] rows by simp
next
  case (Cons l1 rest)
  have bc: "before_comment line0 = line0"
    using rows_no_comment [of line0 raw] rows by simp
  have arr: "except_io (genfromtxt_str fs FileName None) = Inr (Arr1 (line0 # l1 # rest))"
    using rows_Arr1 [where fs = fs, OF _ rd] rows Cons by simp
  have "np_getitem (Arr1 (line0 # l1 # rest)) (nx + 1) = Inl IndexError"
    using short Cons by (intro np_getitem_beyond) simp
  then show ?thesis
    unfolding ubcMesh2D_part_def by (simp add: arr np_getitem_def py_index_def bc nx)
qed

lemma ubcMesh2D_part_missing_run:
  assumes rd: "fs FileName = Some raw" and rows: "genfromtxt_rows raw = rows"
      and nx: "py_int (rows ! 0) = Inr nx" "0 \<le> nx" "nx + 2 \<le> int (length rows)"
      and nz: "py_int (rows ! nat (nx + 1)) = Inr nz"
      and short: "int (length rows) < nx + nz + 2"
  shows "ubcMesh2D_part fs FileName = Inl IndexError"
proof -
  from nx(2,3) obtain l0 l1 rest where r: "rows = l0 # l1 # rest"
    by (cases rows; cases "tl rows") auto
  have nc: "\<And>i. i < length rows \<Longrightarrow> before_comment (rows ! i) = rows ! i"
    using rows_no_comment [of _ raw] rows nth_mem by blast
  have arr: "except_io (genfromtxt_str fs FileName None) = Inr (Arr1 rows)"
    using rows_Arr1 [where fs = fs, OF _ rd] rows r by simp
  have g0: "np_getitem (Arr1 rows) 0 = Inr (rows ! 0)"
    using r by (simp add: np_getitem_def py_index_def)
  have b0: "before_comment (rows ! 0) = rows ! 0" using nc [of 0] r by simp
  have gz: "np_getitem (Arr1 rows) (nx + 1) = Inr (rows ! nat (nx + 1))"
    using nx(2,3) by (simp add: np_getitem_def py_index_def)
  have bz: "before_comment (rows ! nat (nx + 1)) = rows ! nat (nx + 1)"
    using nc [of "nat (nx + 1)"] nx(2,3) by simp
  have zfail: "genTup (Arr1 rows) (2 + nx) nz = Inl IndexError"
    using nx(3) short by (intro genTup_missing_line) simp_all
  show ?thesis
  proof (cases "genTup (Arr1 rows) 1 nx")
    case (Inl e)
    with genTup_error [OF Inl] show ?thesis
      unfolding ubcMesh2D_part_def by (simp add: arr g0 b0 nx(1) gz bz nz)
  next
    case (Inr p)
    then show ?thesis
      unfolding ubcMesh2D_part_def
      by (simp add: arr g0 b0 nx(1) gz bz nz zfail split: prod.splits)
  qed
qed

lemma ubcMesh2D_part_bad_count:
  assumes rd: "fs FileName = Some raw" and rows: "genfromtxt_rows raw = line0 # l1 # others"
      and bad: "py_int line0 = Inl e"
  shows "ubcMesh2D_part fs FileName = Inl ValueError"
proof -
  have bc: "before_comment line0 = line0"
    using rows_no_comment [of line0 raw] rows by simp
  show ?thesis
    unfolding ubcMesh2D_part_def
    using py_int_error [OF bad] bad
    by (simp add: rows_Arr1 [where fs = fs, OF rows rd] np_getitem_def py_index_def bc)
qed

lemma np_array_int_literals:
  "np_array_int ts = Inr ws \<Longrightarrow> t \<in> set ts \<Longrightarrow> int_literal t \<noteq> None"
  by (induction ts arbitrary: ws) (auto split: option.splits if_splits sum.splits)

lemma ubcMesh2D_part_InrD:
  assumes "ubcMesh2D_part fs FileName = Inr r"
  shows "\<exists>raw l0 l1 others t nx. fs FileName = Some raw \<and> genfromtxt_rows raw = l0 # l1 # others \<and>
           py_split l0 = [t] \<and> int_literal t = Some nx"
proof -
  from assms obtain raw where rd: "fs FileName = Some raw"
    by (auto simp: ubcMesh2D_part_def genfromtxt_str_def except_io_def split: option.splits)
  have "\<not> length (genfromtxt_rows raw) < 2"
    using ubcMesh2D_part_short [where fs = fs, OF rd] assms by auto
  then obtain l0 l1 others where rows: "genfromtxt_rows raw = l0 # l1 # others"
    by (cases "genfromtxt_rows raw"; cases "tl (genfromtxt_rows raw)") auto
  have bc: "before_comment l0 = l0"
    using rows_no_comment [of l0 raw] rows by simp
  from assms obtain nx where "py_int l0 = Inr nx"
    unfolding ubcMesh2D_part_def
    by (auto simp: rows_Arr1 [where fs = fs, OF rows rd] np_getitem_def py_index_def bc split: sum.splits)
  then obtain t where "py_split l0 = [t]" "int_literal t = Some nx"
    by (auto simp: py_int_def split: list.splits option.splits)
  with rd rows show ?thesis by blast
qed

lemma ReadExtent_bad_repeat:
  assumes ver: "numpy_has_max_rows np_version = Inr b"
      and part: "ubcMesh2D_part fs (meshFileName self) = Inr (xpts, xdisc, zpts, zdisc)"
      and bad: "t \<in> set (xdisc @ zdisc)" "int_literal t = None"
  shows "fst (ReadExtent np_version fs self) = Inl ValueError \<or>
         fst (ReadExtent np_version fs self) = Inl OverflowError"
proof -
  from ubcMesh2D_part_InrD [OF part] obtain raw l0 l1 others t0 nx where
    rd: "fs (meshFileName self) = Some raw" and rows: "genfromtxt_rows raw = l0 # l1 # others" and
    t0: "py_split l0 = [t0]" "int_literal t0 = Some nx"
    by blast
  have first: "read_first_row b fs (meshFileName self) = Inr (Arr0 l0)"
    using read_first_row_header [where fs = fs and FileName = "meshFileName self", OF rd rows] by simp
  show ?thesis
  proof (cases "fits_int64 nx")
    case False
    then show ?thesis
      unfolding ReadExtent_def by (simp add: ver first np_ravel_def py_index_def t0)
  next
    case True
    show ?thesis
    proof (cases "np_array_int xdisc")
      case (Inl e)
      with np_array_int_error [OF Inl] True show ?thesis
        unfolding ReadExtent_def by (auto simp: ver first np_ravel_def py_index_def t0 part)
    next
      case xs: (Inr xs)
      show ?thesis
      proof (cases "np_array_int zdisc")
        case (Inl e)
        with np_array_int_error [OF Inl] True xs show ?thesis
          unfolding ReadExtent_def by (auto simp: ver first np_ravel_def py_index_def t0 part)
      next
        case (Inr zs)
        with xs bad np_array_int_literals show ?thesis by (metis Un_iff set_append)
      qed
    qed
  qed
qed

lemma ubcMesh2D_part_bad_zcount:
  assumes rd: "fs FileName = Some raw" and rows: "genfromtxt_rows raw = rows"
      and nx: "py_int (rows ! 0) = Inr nx" "0 \<le> nx" "nx + 2 \<le> int (length rows)"
      and bad: "py_int (rows ! nat (nx + 1)) = Inl e"
  shows "ubcMesh2D_part fs FileName = Inl ValueError"
proof -
  from nx(2,3) obtain l0 l1 rest where r: "rows = l0 # l1 # rest"
    by (cases rows; cases "tl rows") auto
  have nc: "\<And>i. i < length rows \<Longrightarrow> before_comment (rows ! i) = rows ! i"
    using rows_no_comment [of _ raw] rows nth_mem by blast
  have arr: "except_io (genfromtxt_str fs FileName None) = Inr (Arr1 rows)"
    using rows_Arr1 [where fs = fs, OF _ rd] rows r by simp
  have g0: "np_getitem (Arr1 rows) 0 = Inr (rows ! 0)"
    using r by (simp add: np_getitem_def py_index_def)
  have b0: "before_comment (rows ! 0) = rows ! 0" using nc [of 0] r by simp
  have gz: "np_getitem (Arr1 rows) (nx + 1) = Inr (rows ! nat (nx + 1))"
    using nx(2,3) by (simp add: np_getitem_def py_index_def)
  have bz: "before_comment (rows ! nat (nx + 1)) = rows ! nat (nx + 1)"
    using nc [of "nat (nx + 1)"] nx(2,3) by simp
  show ?thesis
    unfolding ubcMesh2D_part_def using py_int_error [OF bad] bad
    by (simp add: arr g0 b0 nx(1) gz bz)
qed

lemma ReadExtent_raises_decoder_error:
  assumes rd: "fs (meshFileName self) = Some raw"
      and rows: "genfromtxt_rows raw = line0 # others"
      and ver: "numpy_has_max_rows np_version = Inr b"
      and tok: "py_split line0 = [t]" "int_literal t = Some n" "fits_int64 n"
      and part: "ubcMesh2D_part fs (meshFileName self) = Inl e"
  shows "fst (ReadExtent np_version fs self) = Inl e"
proof (cases "b \<or> others \<noteq> []")
  case True
  have first: "read_first_row b fs (meshFileName self) = Inr (Arr0 line0)"
    using read_first_row_header [where fs = fs and FileName = "meshFileName self", OF rd rows True] .
  show ?thesis
    unfolding ReadExtent_def by (simp add: ver first np_ravel_def py_index_def tok part)
next
  case False
  then have b: "numpy_has_max_rows np_version = Inr False" and one: "genfromtxt_rows raw = [line0]"
    using ver rows by auto
  have "ubcMesh2D_part fs (meshFileName self) = Inl IndexError"
    using ubcMesh2D_part_short [where fs = fs, OF rd] one by simp
  with part have "e = IndexError" by simp
  with ReadExtent_single_fallback [where fs = fs and self = self, OF rd one b] show ?thesis by simp
qed

text \<open>
  Claim C4, as the code has it, for a readable file with retained lines \<open>rows\<close>.
  \<open>_ubcMesh2D_part\<close> raises nothing but \<open>IndexError\<close> and \<open>ValueError\<close>.  It
  raises \<open>IndexError\<close> when there are fewer than two retained lines, when the line
  of the Z count is missing, and when a run line is missing (the file has fewer than
  \<open>nx + nz + 2\<close> retained lines); it raises \<open>ValueError\<close> when the X count or the
  Z count is no integer.  On a file whose first retained line is one integer token of
  64 bits, \<open>_ReadExtent\<close> raises what \<open>_ubcMesh2D_part\<close> raises.  When
  \<open>_ubcMesh2D_part\<close> returns and one of the repeat tokens is no integer,
  \<open>_ReadExtent\<close> raises \<open>ValueError\<close> or \<open>OverflowError\<close>.  None of these is a
  \<open>PVGeoError\<close>, and none carries a line number.
\<close>

theorem ubcMesh2D_part_failures:
  assumes rd: "fs (meshFileName self) = Some raw" and rows: "genfromtxt_rows raw = rows"
      and ver: "numpy_has_max_rows np_version = Inr b"
  shows "(\<forall>e. ubcMesh2D_part fs (meshFileName self) = Inl e \<longrightarrow> e = IndexError \<or> e = ValueError) \<and>
         (length rows < 2 \<longrightarrow> ubcMesh2D_part fs (meshFileName self) = Inl IndexError) \<and>
         (\<forall>nx. py_int (rows ! 0) = Inr nx \<and> 0 \<le> nx \<and> int (length rows) < nx + 2 \<longrightarrow>
               ubcMesh2D_part fs (meshFileName self) = Inl IndexError) \<and>
         (\<forall>nx nz. py_int (rows ! 0) = Inr nx \<and> 0 \<le> nx \<and> nx + 2 \<le> int (length rows) \<and>
               py_int (rows ! nat (nx + 1)) = Inr nz \<and> int (length rows) < nx + nz + 2 \<longrightarrow>
               ubcMesh2D_part fs (meshFileName self) = Inl IndexError) \<and>
         (\<forall>e. 2 \<le> length rows \<and> py_int (rows ! 0) = Inl e \<longrightarrow>
               ubcMesh2D_part fs (meshFileName self) = Inl ValueError) \<and>
         (\<forall>nx e. py_int (rows ! 0) = Inr nx \<and> 0 \<le> nx \<and> nx + 2 \<le> int (length rows) \<and>
               py_int (rows ! nat (nx + 1)) = Inl e \<longrightarrow>
               ubcMesh2D_part fs (meshFileName self) = Inl ValueError) \<and>
         (\<forall>t n e. rows \<noteq> [] \<and> py_split (rows ! 0) = [t] \<and> int_literal t = Some n \<and> fits_int64 n \<and>
               ubcMesh2D_part fs (meshFileName self) = Inl e \<longrightarrow>
               fst (ReadExtent np_version fs self) = Inl e) \<and>
         (\<forall>xpts xdisc zpts zdisc t.
               ubcMesh2D_part fs (meshFileName self) = Inr (xpts, xdisc, zpts, zdisc) \<and>
               t \<in> set (xdisc @ zdisc) \<and> int_literal t = None \<longrightarrow>
               fst (ReadExtent np_version fs self) = Inl ValueError \<or>
               fst (ReadExtent np_version fs self) = Inl OverflowError)"
proof (intro conjI allI impI)
  fix e assume "ubcMesh2D_part fs (meshFileName self) = Inl e"
  then show "e = IndexError \<or> e = ValueError"
    using ubcMesh2D_part_error [where fs = fs, OF rd] by blast
next
  assume "length rows < 2"
  then show "ubcMesh2D_part fs (meshFileName self) = Inl IndexError"
    using ubcMesh2D_part_short [where fs = fs, OF rd] rows by simp
next
  fix nx assume a: "py_int (rows ! 0) = Inr nx \<and> 0 \<le> nx \<and> int (length rows) < nx + 2"
  show "ubcMesh2D_part fs (meshFileName self) = Inl IndexError"
  proof (cases rows)
    case Nil
    then show ?thesis using ubcMesh2D_part_short [where fs = fs, OF rd] rows by simp
  next
    case (Cons l0 others)
    with a rows show ?thesis
      using ubcMesh2D_part_missing_count [where fs = fs and FileName = "meshFileName self"
          and raw = raw and ?line0.0 = l0 and others = others and nx = nx, OF rd]
      by simp
  qed
next
  fix nx nz
  assume a: "py_int (rows ! 0) = Inr nx \<and> 0 \<le> nx \<and> nx + 2 \<le> int (length rows) \<and>
             py_int (rows ! nat (nx + 1)) = Inr nz \<and> int (length rows) < nx + nz + 2"
  then show "ubcMesh2D_part fs (meshFileName self) = Inl IndexError"
    using ubcMesh2D_part_missing_run [where fs = fs and FileName = "meshFileName self", OF rd rows]
    by blast
next
  fix e assume a: "2 \<le> length rows \<and> py_int (rows ! 0) = Inl e"
  then obtain l0 l1 others where r: "rows = l0 # l1 # others"
    by (cases rows; cases "tl rows") auto
  with a rows show "ubcMesh2D_part fs (meshFileName self) = Inl ValueError"
    using ubcMesh2D_part_bad_count [where fs = fs and FileName = "meshFileName self"
        and raw = raw and ?line0.0 = l0 and ?l1.0 = l1 and others = others and e = e, OF rd]
    by simp
next
  fix nx e
  assume a: "py_int (rows ! 0) = Inr nx \<and> 0 \<le> nx \<and> nx + 2 \<le> int (length rows) \<and>
             py_int (rows ! nat (nx + 1)) = Inl e"
  then show "ubcMesh2D_part fs (meshFileName self) = Inl ValueError"
    using ubcMesh2D_part_bad_zcount [where fs = fs and FileName = "meshFileName self", OF rd rows]
    by blast
next
  fix t n e
  assume a: "rows \<noteq> [] \<and> py_split (rows ! 0) = [t] \<and> int_literal t = Some n \<and> fits_int64 n \<and>
             ubcMesh2D_part fs (meshFileName self) = Inl e"
  then obtain l0 others where r: "rows = l0 # others" by (cases rows) auto
  with a rows show "fst (ReadExtent np_version fs self) = Inl e"
    using ReadExtent_raises_decoder_error [where fs = fs and self = self and raw = raw
        and ?line0.0 = l0 and others = others and t = t and n = n and e = e, OF rd _ ver]
    by simp
next
  fix xpts xdisc zpts zdisc t
  assume "ubcMesh2D_part fs (meshFileName self) = Inr (xpts, xdisc, zpts, zdisc) \<and>
          t \<in> set (xdisc @ zdisc) \<and> int_literal t = None"
  then show "fst (ReadExtent np_version fs self) = Inl ValueError \<or>
             fst (ReadExtent np_version fs self) = Inl OverflowError"
    using ReadExtent_bad_repeat [OF ver] by blast
qed

theorem ubcMesh2D_part_failures_witness:
  "ubcMesh2D_part bad_mesh_files ''e.msh'' = Inl IndexError \<and>
   fst (ReadExtent ''1.14.5'' bad_mesh_files (ubcMeshReaderBase_init ''e.msh'')) = Inl IndexError \<and>
   ubcMesh2D_part bad_mesh_files ''g.msh'' = Inr ([''0'', ''10''], [''x''], [''0'', ''10''], [''2'']) \<and>
   fst (ReadExtent ''1.14.5'' bad_mesh_files (ubcMeshReaderBase_init ''g.msh'')) = Inl ValueError"
proof -
  have e1: "bad_mesh_files (meshFileName (ubcMeshReaderBase_init ''e.msh'')) = Some [''2'', ''0 10 2'']"
    by (simp add: bad_mesh_files_def ubcMeshReaderBase_init_def)
  have e2: "genfromtxt_rows [''2'', ''0 10 2''] = [''2'', ''0 10 2'']"
    by code_simp
  have v: "numpy_has_max_rows ''1.14.5'' = Inr True"
    by code_simp
  have e3: "py_int ([''2'', ''0 10 2''] ! 0) = Inr 2 \<and> (0::int) \<le> 2 \<and>
            int (length [''2'', ''0 10 2'']) < 2 + 2"
    by code_simp
  have m: "meshFileName (ubcMeshReaderBase_init n) = n" for n
    by (simp add: ubcMeshReaderBase_init_def)
  note e_all = ubcMesh2D_part_failures [where fs = bad_mesh_files
      and self = "ubcMeshReaderBase_init ''e.msh''", OF e1 e2 v]
  have a: "ubcMesh2D_part bad_mesh_files ''e.msh'' = Inl IndexError"
    using e_all [THEN conjunct2, THEN conjunct2, THEN conjunct1, rule_format, of 2] e3
    by (simp add: m)
  have e4: "[''2'', ''0 10 2''] \<noteq> [] \<and> py_split ([''2'', ''0 10 2''] ! 0) = [''2''] \<and>
            int_literal ''2'' = Some 2 \<and> fits_int64 2"
    by code_simp
  have a': "fst (ReadExtent ''1.14.5'' bad_mesh_files (ubcMeshReaderBase_init ''e.msh'')) = Inl IndexError"
    using e_all [THEN conjunct2, THEN conjunct2, THEN conjunct2, THEN conjunct2, THEN conjunct2,
        THEN conjunct2, THEN conjunct1, rule_format, of "''2''" 2 IndexError] e4 a
    by (simp add: m)
  have g1: "bad_mesh_files (meshFileName (ubcMeshReaderBase_init ''g.msh'')) =
              Some [''1'', ''0 10 x'', ''1'', ''0 10 2'']"
    by (simp add: bad_mesh_files_def ubcMeshReaderBase_init_def)
  have g2: "genfromtxt_rows [''1'', ''0 10 x'', ''1'', ''0 10 2''] = [''1'', ''0 10 x'', ''1'', ''0 10 2'']"
    by code_simp
  have g3: "ubcMesh2D_part bad_mesh_files ''g.msh'' = Inr ([''0'', ''10''], [''x''], [''0'', ''10''], [''2''])"
    by code_simp
  have g4: "int_literal ''x'' = None"
    by code_simp
  have g5: "fst (ReadExtent ''1.14.5'' bad_mesh_files (ubcMeshReaderBase_init ''g.msh'')) \<noteq> Inl OverflowError"
    by code_simp
  have b: "fst (ReadExtent ''1.14.5'' bad_mesh_files (ubcMeshReaderBase_init ''g.msh'')) = Inl ValueError"
    using ubcMesh2D_part_failures [where fs = bad_mesh_files and self = "ubcMeshReaderBase_init ''g.msh''",
        OF g1 g2 v, THEN conjunct2, THEN conjunct2, THEN conjunct2, THEN conjunct2, THEN conjunct2,
        THEN conjunct2, THEN conjunct2,
        rule_format, of "[''0'', ''10'']" "[''x'']" "[''0'', ''10'']" "[''2'']" "''x''"] g3 g4 g5
    by (simp add: m)
  from a a' g3 b show ?thesis by simp
qed

text \<open>
  Claim C4, as the specification has it, fails twice.  In the file \<open>e.msh\<close> the
  second X run line and all that follows are missing: \<open>_ubcMesh2D_part\<close> and
  \<open>_ReadExtent\<close> raise a bare \<open>IndexError\<close>, not a \<open>PVGeoError\<close>.  In the file
  \<open>f.msh\<close> the width \<open>abc\<close> is no number: nothing is raised, and \<open>_ReadExtent\<close>
  returns an extent.
\<close>

theorem ubcMesh2D_part_no_FormatError:
  "ubcMesh2D_part bad_mesh_files ''e.msh'' = Inl IndexError \<and>
   fst (ReadExtent ''1.14.5'' bad_mesh_files (ubcMeshReaderBase_init ''e.msh'')) = Inl IndexError \<and>
   int_literal ''abc'' = None \<and>
   fst (ReadExtent ''1.14.5'' bad_mesh_files (ubcMeshReaderBase_init ''f.msh'')) = Inr (0, 3, 0, 1, 0, 3)"
  by code_simp

section \<open>The model reader on a list of paths\<close>

lemma global_name_os: "global_name ''os'' = Inl (NameError ''os'')"
  by (simp add: global_name_def module_globals_def)

text \<open>
  On a list that is not empty the loop never reaches its second round: the first read
  fails, or the lookup of \<open>os\<close> does.  This holds whatever \<open>np.genfromtxt\<close> returns.
\<close>

lemma ubcModel3D_list:
  "ubcModel3D rd (Paths (f # fs)) =
     (case except_io (rd f) of Inl e \<Rightarrow> Inl e | Inr data \<Rightarrow> Inl (NameError ''os''))"
  by (simp add: ubcModel3D_def global_name_os split: sum.splits)

lemma ubcModel3D_single:
  "ubcModel3D rd (Path f) =
     (case rd f of Inl (IOError msg) \<Rightarrow> Inl (PVGeoError msg) | Inl e \<Rightarrow> Inl e | Inr data \<Rightarrow> Inr (ModelArray data))"
  by (auto simp: ubcModel3D_def except_io_def split: sum.splits error.splits)

text \<open>
  Claim C3.  For one path \<open>ubcModel3D\<close> returns the array read from the file.  For
  a list of paths it should return a dictionary from the base names to the arrays; it
  does so only for the empty list.  On the list of the two model files it raises
  \<open>NameError\<close>: the module never imports \<open>os\<close>.
\<close>

theorem ubcModel3D_list_NameError:
  "ubcModel3D model_files (Path ''/data/a.mod'') = Inr (ModelArray [1, 2, 3, 4]) \<and>
   ubcModel3D model_files (Paths [''/data/a.mod'', ''/data/b.mod'']) = Inl (NameError ''os'') \<and>
   ubcModel3D model_files (Paths []) = Inr (ModelDict [])"
  by (simp add: ubcModel3D_def model_files_def except_io_def global_name_os)

section \<open>The model appender's state\<close>

lemma Modified_modelFileNames: "modelFileNames (Modified b s) = modelFileNames s"
  by (simp add: Modified_def)

lemma Modified_True_needToRead: "needToRead (Modified True s)"
  by (simp add: Modified_def)

lemma fold_add_present:
  "set fs \<subseteq> set (modelFileNames s) \<Longrightarrow>
   fold (\<lambda>f t. snd (AddModelFileName f t)) (map PyStr fs) s = s"
  by (induction fs) auto

text \<open>
  What adding names that are already present does, in both forms of the call: the
  string form returns the appender as it was; the list form keeps the list of names
  and sets the reread flag.
\<close>

lemma AddModelFileName_present:
  assumes "f \<in> set (modelFileNames s)" and "set fs \<subseteq> set (modelFileNames s)"
  shows "AddModelFileName (PyStr f) s = (Some 1, s) \<and>
         modelFileNames (snd (AddModelFileName (PyList (map PyStr fs)) s)) = modelFileNames s \<and>
         needToRead (snd (AddModelFileName (PyList (map PyStr fs)) s))"
  using assms by (simp add: fold_add_present Modified_modelFileNames Modified_True_needToRead)

text \<open>
  Claim C6.  Adding a file name that is already in the list, as a string or inside a
  list, should leave the list and the reread flag as they were.  The string form
  does.  The list form does not: on the clean appender,
  which holds \<open>a.mod\<close>, the call \<open>AddModelFileName(['a.mod'])\<close> keeps the two names
  in their order and sets \<open>needToRead\<close>, while \<open>AddModelFileName('a.mod')\<close> changes
  nothing.
\<close>

theorem AddModelFileName_list_marks_stale:
  "\<not> needToRead clean_appender \<and>
   ''a.mod'' \<in> set (modelFileNames clean_appender) \<and>
   snd (AddModelFileName (PyStr ''a.mod'') clean_appender) = clean_appender \<and>
   modelFileNames (snd (AddModelFileName (PyList [PyStr ''a.mod'']) clean_appender))
     = [''a.mod'', ''b.mod''] \<and>
   needToRead (snd (AddModelFileName (PyList [PyStr ''a.mod'']) clean_appender))"
  by (simp add: clean_appender_def Modified_def)

text \<open>
  Claim C7.  Let \<open>s1\<close> be the appender after the read step of \<open>RequestData\<close> (the
  hook \<open>_ReadUpFront\<close> when \<open>needToRead\<close> is set and the hook raises nothing, the
  appender itself otherwise).  If the requested index \<open>i\<close> is at least the number of
  models of \<open>s1\<close>, \<open>RequestData\<close> returns \<open>1\<close> and the output grid is the copy of the
  input, whatever \<open>_PlaceOnMesh\<close> is; if \<open>i\<close> is below that number, the output is what
  \<open>_PlaceOnMesh\<close> makes of the copy at index \<open>i\<close>.
\<close>

theorem RequestData_timestep_range:
  assumes "needToRead s \<Longrightarrow> ReadUpFront s = (None, s1)" and "\<not> needToRead s \<Longrightarrow> s1 = s"
  shows "(length (models s1) \<le> i \<longrightarrow>
            RequestData ReadUpFront PlaceOnMesh pdi i s = (Inr 1, pdi, s1)) \<and>
         (i < length (models s1) \<longrightarrow>
            RequestData ReadUpFront PlaceOnMesh pdi i s =
              (case PlaceOnMesh s1 pdi i of
                 (Some e, g, s2) \<Rightarrow> (Inl e, g, s2)
               | (None, g, s2) \<Rightarrow> (Inr 1, g, s2)))"
  using assms
  by (cases "needToRead s") (auto simp: RequestData_def split: prod.splits option.splits)

theorem RequestData_timestep_range_witness:
  "RequestData read3 place_cell [7, 7] 5 (ModelAppenderBase_init (Some [''a'', ''b'', ''c'']) None)
     = (Inr 1, [7, 7], snd (read3 (ModelAppenderBase_init (Some [''a'', ''b'', ''c'']) None))) \<and>
   RequestData read3 place_cell [7, 7] 1 (ModelAppenderBase_init (Some [''a'', ''b'', ''c'']) None)
     = (Inr 1, [7, 7, 20], snd (read3 (ModelAppenderBase_init (Some [''a'', ''b'', ''c'']) None)))"
  using
    RequestData_timestep_range [of "ModelAppenderBase_init (Some [''a'', ''b'', ''c'']) None" read3
      "snd (read3 (ModelAppenderBase_init (Some [''a'', ''b'', ''c'']) None))" 5 place_cell "[7, 7]"]
    RequestData_timestep_range [of "ModelAppenderBase_init (Some [''a'', ''b'', ''c'']) None" read3
      "snd (read3 (ModelAppenderBase_init (Some [''a'', ''b'', ''c'']) None))" 1 place_cell "[7, 7]"]
  by (simp add: read3_def place_cell_def ModelAppenderBase_init_def)

text \<open>
  Claim C8, as the code has it.  The reread flag is set whenever
  \<open>AddModelFileName\<close> changes the list of names, by \<open>ClearModels\<close>, and by
  \<open>Modified\<close> called with \<open>readAgain\<close> true (its default).  \<open>Modified(readAgain=False)\<close>
  and the two naming setters, which call it, leave the flag as it was.
\<close>

theorem stale_triggers:
  "(modelFileNames (snd (AddModelFileName x s)) \<noteq> modelFileNames s \<longrightarrow>
      needToRead (snd (AddModelFileName x s))) \<and>
   needToRead (ClearModels s) \<and>
   needToRead (Modified True s) \<and>
   needToRead (Modified False s) = needToRead s \<and>
   needToRead (SetUseExtensionAsName flag s) = needToRead s \<and>
   needToRead (SetDataName name s) = needToRead s"
  by (cases x) (auto simp: Modified_def ClearModels_def SetUseExtensionAsName_def SetDataName_def)

theorem stale_triggers_witness:
  "modelFileNames (snd (AddModelFileName (PyStr ''c.mod'') clean_appender))
     \<noteq> modelFileNames clean_appender \<and>
   needToRead (snd (AddModelFileName (PyStr ''c.mod'') clean_appender)) \<and>
   needToRead (ClearModels clean_appender) \<and>
   \<not> needToRead (SetDataName ''rho'' clean_appender)"
  using stale_triggers [of "PyStr ''c.mod''" clean_appender False "''rho''"]
  by (simp add: clean_appender_def Modified_def ClearModels_def SetDataName_def)

text \<open>
  Claim C8, as the specification has it, fails for the naming setters: on the clean
  appender \<open>SetUseExtensionAsName(False)\<close> changes the flag and \<open>SetDataName('rho')\<close>
  changes the name, and \<open>needToRead\<close> is still false after either.
\<close>

theorem naming_change_not_stale:
  "useExtName (SetUseExtensionAsName False clean_appender) \<noteq> useExtName clean_appender \<and>
   \<not> needToRead (SetUseExtensionAsName False clean_appender) \<and>
   dataname (SetDataName ''rho'' clean_appender) \<noteq> dataname clean_appender \<and>
   \<not> needToRead (SetDataName ''rho'' clean_appender)"
  by (simp add: clean_appender_def SetUseExtensionAsName_def SetDataName_def Modified_def)

text \<open>
  Claim C10.  With extension naming on and no model file, \<open>GetModelFileNames(idx=0)\<close>
  returns the empty list, not a file name, and \<open>GetDataName\<close> raises
  \<open>AttributeError\<close> (a list has no \<open>split\<close>): it returns no name.
\<close>

theorem GetDataName_no_models:
  assumes "useExtName s" and "modelFileNames s = []"
  shows "GetModelFileNames (Some 0) s = Inr (NameList []) \<and> GetDataName s = Inl AttributeError"
  using assms by (simp add: GetDataName_def GetModelFileNames_def HasModels_def)

theorem GetDataName_no_models_witness:
  "useExtName (ModelAppenderBase_init None None :: nat appender) \<and>
   modelFileNames (ModelAppenderBase_init None None :: nat appender) = [] \<and>
   GetModelFileNames (Some 0) (ModelAppenderBase_init None None :: nat appender) = Inr (NameList []) \<and>
   GetDataName (ModelAppenderBase_init None None :: nat appender) = Inl AttributeError"
  using GetDataName_no_models [of "ModelAppenderBase_init None None :: nat appender"]
  by (simp add: ModelAppenderBase_init_def)

text \<open>With a model file the name is the text after the last dot of the first file.\<close>

lemma GetDataName_clean: "GetDataName clean_appender = Inr ''mod''"
  by (simp add: GetDataName_def GetModelFileNames_def HasModels_def clean_appender_def
      py_index_def py_split_sep_def)

end
